theory Spec2Isabelle
  imports Complex_Main "HOL-Library.Word"
begin

unbundle bit_operations_syntax

section \<open>Adaptive marching cubes: the data model\<close>

text \<open>
  The program polygonises the zero set of a scalar field inside an axis-aligned box.
  Its \<^verbatim>\<open>double\<close> values are modelled as real numbers: rounding, infinities and NaN
  are outside this development, and every statement below is a statement about the
  program computed over the reals.
\<close>

datatype Point3D = Point3D (px: real) (py: real) (pz: real)

datatype Triangle = Triangle (tp1: Point3D) (tp2: Point3D) (tp3: Point3D)

type_synonym field = "real \<Rightarrow> real \<Rightarrow> real \<Rightarrow> real"

text \<open>
  Reading an array outside its bounds is undefined behaviour in the source; the model
  makes every such read a value of its own.
\<close>

datatype fault = OutOfBounds

definition at_index :: "'a list \<Rightarrow> int \<Rightarrow> fault + 'a" where
  "at_index xs i = (if 0 \<le> i \<and> nat i < length xs then Inr (xs ! nat i) else Inl OutOfBounds)"

section \<open>The lookup tables\<close>

definition edgeTable :: "int list" where
  "edgeTable = [
    0x0, 0x109, 0x203, 0x30A, 0x406, 0x50F, 0x605, 0x70C,
    0x80C, 0x905, 0xA0F, 0xB06, 0xC0A, 0xD03, 0xE09, 0xF00,
    0x190, 0x99, 0x393, 0x29A, 0x596, 0x49F, 0x795, 0x69C,
    0x99C, 0x895, 0xB9F, 0xA96, 0xD9A, 0xC93, 0xF99, 0xE90,
    0x230, 0x339, 0x33, 0x13A, 0x636, 0x73F, 0x435, 0x53C,
    0xA3C, 0xB35, 0x83F, 0x936, 0xE3A, 0xF33, 0xC39, 0xD30,
    0x3A0, 0x2A9, 0x1A3, 0xAA, 0x7A6, 0x6AF, 0x5A5, 0x4AC,
    0xBAC, 0xAA5, 0x9AF, 0x8A6, 0xFAA, 0xEA3, 0xDA9, 0xCA0,
    0x460, 0x569, 0x663, 0x76A, 0x66, 0x16F, 0x265, 0x36C,
    0xC6C, 0xD65, 0xE6F, 0xF66, 0x86A, 0x963, 0xA69, 0xB60,
    0x5F0, 0x4F9, 0x7F3, 0x6FA, 0x1F6, 0xFF, 0x3F5, 0x2FC,
    0xDFC, 0xCF5, 0xFFF, 0xEF6, 0x9FA, 0x8F3, 0xBF9, 0xAF0,
    0x650, 0x759, 0x453, 0x55A, 0x256, 0x35F, 0x55, 0x15C,
    0xE5C, 0xF55, 0xC5F, 0xD56, 0xA5A, 0xB53, 0x859, 0x950,
    0x7C0, 0x6C9, 0x5C3, 0x4CA, 0x3C6, 0x2CF, 0x1C5, 0xCC,
    0xFCC, 0xEC5, 0xDCF, 0xCC6, 0xBCA, 0xAC3, 0x9C9, 0x8C0,
    0x8C0, 0x9C9, 0xAC3, 0xBCA, 0xCC6, 0xDCF, 0xEC5, 0xFCC,
    0xCC, 0x1C5, 0x2CF, 0x3C6, 0x4CA, 0x5C3, 0x6C9, 0x7C0,
    0x950, 0x859, 0xB53, 0xA5A, 0xD56, 0xC5F, 0xF55, 0xE5C,
    0x15C, 0x55, 0x35F, 0x256, 0x55A, 0x453, 0x759, 0x650,
    0xAF0, 0xBF9, 0x8F3, 0x9FA, 0xEF6, 0xFFF, 0xCF5, 0xDFC,
    0x2FC, 0x3F5, 0xFF, 0x1F6, 0x6FA, 0x7F3, 0x4F9, 0x5F0,
    0xB60, 0xA69, 0x963, 0x86A, 0xF66, 0xE6F, 0xD65, 0xC6C,
    0x36C, 0x265, 0x16F, 0x66, 0x76A, 0x663, 0x569, 0x460,
    0xCA0, 0xDA9, 0xEA3, 0xFAA, 0x8A6, 0x9AF, 0xAA5, 0xBAC,
    0x4AC, 0x5A5, 0x6AF, 0x7A6, 0xAA, 0x1A3, 0x2A9, 0x3A0,
    0xD30, 0xC39, 0xF33, 0xE3A, 0x936, 0x83F, 0xB35, 0xA3C,
    0x53C, 0x435, 0x73F, 0x636, 0x13A, 0x33, 0x339, 0x230,
    0xE90, 0xF99, 0xC93, 0xD9A, 0xA96, 0xB9F, 0x895, 0x99C,
    0x69C, 0x795, 0x49F, 0x596, 0x29A, 0x393, 0x99, 0x190,
    0xF00, 0xE09, 0xD03, 0xC0A, 0xB06, 0xA0F, 0x905, 0x80C,
    0x70C, 0x605, 0x50F, 0x406, 0x30A, 0x203, 0x109, 0x0
  ]"

definition triTable :: "int list list" where
  "triTable = [
    [-1, -1, -1, -1, -1, -1, -1, -1, -1, -1, -1, -1, -1, -1, -1, -1],
    [0, 8, 3, -1, -1, -1, -1, -1, -1, -1, -1, -1, -1, -1, -1, -1],
    [0, 1, 9, -1, -1, -1, -1, -1, -1, -1, -1, -1, -1, -1, -1, -1],
    [1, 8, 3, 9, 8, 1, -1, -1, -1, -1, -1, -1, -1, -1, -1, -1],
    [1, 2, 10, -1, -1, -1, -1, -1, -1, -1, -1, -1, -1, -1, -1, -1],
    [0, 8, 3, 1, 2, 10, -1, -1, -1, -1, -1, -1, -1, -1, -1, -1],
    [9, 2, 10, 0, 2, 9, -1, -1, -1, -1, -1, -1, -1, -1, -1, -1],
    [2, 8, 3, 2, 10, 8, 10, 9, 8, -1, -1, -1, -1, -1, -1, -1],
    [3, 11, 2, -1, -1, -1, -1, -1, -1, -1, -1, -1, -1, -1, -1, -1],
    [0, 11, 2, 8, 11, 0, -1, -1, -1, -1, -1, -1, -1, -1, -1, -1],
    [1, 9, 0, 2, 3, 11, -1, -1, -1, -1, -1, -1, -1, -1, -1, -1],
    [1, 11, 2, 1, 9, 11, 9, 8, 11, -1, -1, -1, -1, -1, -1, -1],
    [3, 10, 1, 11, 10, 3, -1, -1, -1, -1, -1, -1, -1, -1, -1, -1],
    [0, 10, 1, 0, 8, 10, 8, 11, 10, -1, -1, -1, -1, -1, -1, -1],
    [3, 9, 0, 3, 11, 9, 11, 10, 9, -1, -1, -1, -1, -1, -1, -1],
    [9, 8, 10, 10, 8, 11, -1, -1, -1, -1, -1, -1, -1, -1, -1, -1],
    [4, 7, 8, -1, -1, -1, -1, -1, -1, -1, -1, -1, -1, -1, -1, -1],
    [4, 3, 0, 7, 3, 4, -1, -1, -1, -1, -1, -1, -1, -1, -1, -1],
    [0, 1, 9, 8, 4, 7, -1, -1, -1, -1, -1, -1, -1, -1, -1, -1],
    [4, 1, 9, 4, 7, 1, 7, 3, 1, -1, -1, -1, -1, -1, -1, -1],
    [1, 2, 10, 8, 4, 7, -1, -1, -1, -1, -1, -1, -1, -1, -1, -1],
    [3, 4, 7, 3, 0, 4, 1, 2, 10, -1, -1, -1, -1, -1, -1, -1],
    [9, 2, 10, 9, 0, 2, 8, 4, 7, -1, -1, -1, -1, -1, -1, -1],
    [2, 10, 9, 2, 9, 7, 2, 7, 3, 7, 9, 4, -1, -1, -1, -1],
    [8, 4, 7, 3, 11, 2, -1, -1, -1, -1, -1, -1, -1, -1, -1, -1],
    [11, 4, 7, 11, 2, 4, 2, 0, 4, -1, -1, -1, -1, -1, -1, -1],
    [9, 0, 1, 8, 4, 7, 2, 3, 11, -1, -1, -1, -1, -1, -1, -1],
    [4, 7, 11, 9, 4, 11, 9, 11, 2, 9, 2, 1, -1, -1, -1, -1],
    [3, 10, 1, 3, 11, 10, 7, 8, 4, -1, -1, -1, -1, -1, -1, -1],
    [1, 11, 10, 1, 4, 11, 1, 0, 4, 7, 11, 4, -1, -1, -1, -1],
    [4, 7, 8, 9, 0, 11, 9, 11, 10, 11, 0, 3, -1, -1, -1, -1],
    [4, 7, 11, 4, 11, 9, 9, 11, 10, -1, -1, -1, -1, -1, -1, -1],
    [9, 5, 4, -1, -1, -1, -1, -1, -1, -1, -1, -1, -1, -1, -1, -1],
    [9, 5, 4, 0, 8, 3, -1, -1, -1, -1, -1, -1, -1, -1, -1, -1],
    [0, 5, 4, 1, 5, 0, -1, -1, -1, -1, -1, -1, -1, -1, -1, -1],
    [8, 5, 4, 8, 3, 5, 3, 1, 5, -1, -1, -1, -1, -1, -1, -1],
    [1, 2, 10, 9, 5, 4, -1, -1, -1, -1, -1, -1, -1, -1, -1, -1],
    [3, 0, 8, 1, 2, 10, 4, 9, 5, -1, -1, -1, -1, -1, -1, -1],
    [5, 2, 10, 5, 4, 2, 4, 0, 2, -1, -1, -1, -1, -1, -1, -1],
    [2, 10, 5, 3, 2, 5, 3, 5, 4, 3, 4, 8, -1, -1, -1, -1],
    [9, 5, 4, 2, 3, 11, -1, -1, -1, -1, -1, -1, -1, -1, -1, -1],
    [0, 11, 2, 0, 8, 11, 4, 9, 5, -1, -1, -1, -1, -1, -1, -1],
    [0, 5, 4, 0, 1, 5, 2, 3, 11, -1, -1, -1, -1, -1, -1, -1],
    [2, 1, 5, 2, 5, 8, 2, 8, 11, 4, 8, 5, -1, -1, -1, -1],
    [10, 3, 11, 10, 1, 3, 9, 5, 4, -1, -1, -1, -1, -1, -1, -1],
    [4, 9, 5, 0, 8, 1, 8, 10, 1, 8, 11, 10, -1, -1, -1, -1],
    [5, 4, 0, 5, 0, 11, 5, 11, 10, 11, 0, 3, -1, -1, -1, -1],
    [5, 4, 8, 5, 8, 10, 10, 8, 11, -1, -1, -1, -1, -1, -1, -1],
    [9, 7, 8, 5, 7, 9, -1, -1, -1, -1, -1, -1, -1, -1, -1, -1],
    [9, 3, 0, 9, 5, 3, 5, 7, 3, -1, -1, -1, -1, -1, -1, -1],
    [0, 7, 8, 0, 1, 7, 1, 5, 7, -1, -1, -1, -1, -1, -1, -1],
    [1, 5, 3, 3, 5, 7, -1, -1, -1, -1, -1, -1, -1, -1, -1, -1],
    [9, 7, 8, 9, 5, 7, 10, 1, 2, -1, -1, -1, -1, -1, -1, -1],
    [10, 1, 2, 9, 5, 0, 5, 3, 0, 5, 7, 3, -1, -1, -1, -1],
    [8, 0, 2, 8, 2, 5, 8, 5, 7, 10, 5, 2, -1, -1, -1, -1],
    [2, 10, 5, 2, 5, 3, 3, 5, 7, -1, -1, -1, -1, -1, -1, -1],
    [7, 9, 5, 7, 8, 9, 3, 11, 2, -1, -1, -1, -1, -1, -1, -1],
    [9, 5, 7, 9, 7, 2, 9, 2, 0, 2, 7, 11, -1, -1, -1, -1],
    [2, 3, 11, 0, 1, 8, 1, 7, 8, 1, 5, 7, -1, -1, -1, -1],
    [11, 2, 1, 11, 1, 7, 7, 1, 5, -1, -1, -1, -1, -1, -1, -1],
    [9, 5, 8, 8, 5, 7, 10, 1, 3, 10, 3, 11, -1, -1, -1, -1],
    [5, 7, 0, 5, 0, 9, 7, 11, 0, 1, 0, 10, 11, 10, 0, -1],
    [11, 10, 0, 11, 0, 3, 10, 5, 0, 8, 0, 7, 5, 7, 0, -1],
    [11, 10, 5, 7, 11, 5, -1, -1, -1, -1, -1, -1, -1, -1, -1, -1],
    [10, 6, 5, -1, -1, -1, -1, -1, -1, -1, -1, -1, -1, -1, -1, -1],
    [0, 8, 3, 5, 10, 6, -1, -1, -1, -1, -1, -1, -1, -1, -1, -1],
    [9, 0, 1, 5, 10, 6, -1, -1, -1, -1, -1, -1, -1, -1, -1, -1],
    [1, 8, 3, 1, 9, 8, 5, 10, 6, -1, -1, -1, -1, -1, -1, -1],
    [1, 6, 5, 2, 6, 1, -1, -1, -1, -1, -1, -1, -1, -1, -1, -1],
    [1, 6, 5, 1, 2, 6, 3, 0, 8, -1, -1, -1, -1, -1, -1, -1],
    [9, 6, 5, 9, 0, 6, 0, 2, 6, -1, -1, -1, -1, -1, -1, -1],
    [5, 9, 8, 5, 8, 2, 5, 2, 6, 3, 2, 8, -1, -1, -1, -1],
    [2, 3, 11, 10, 6, 5, -1, -1, -1, -1, -1, -1, -1, -1, -1, -1],
    [11, 0, 8, 11, 2, 0, 10, 6, 5, -1, -1, -1, -1, -1, -1, -1],
    [0, 1, 9, 2, 3, 11, 5, 10, 6, -1, -1, -1, -1, -1, -1, -1],
    [5, 10, 6, 1, 9, 2, 9, 11, 2, 9, 8, 11, -1, -1, -1, -1],
    [6, 3, 11, 6, 5, 3, 5, 1, 3, -1, -1, -1, -1, -1, -1, -1],
    [0, 8, 11, 0, 11, 5, 0, 5, 1, 5, 11, 6, -1, -1, -1, -1],
    [3, 11, 6, 0, 3, 6, 0, 6, 5, 0, 5, 9, -1, -1, -1, -1],
    [6, 5, 9, 6, 9, 11, 11, 9, 8, -1, -1, -1, -1, -1, -1, -1],
    [5, 10, 6, 4, 7, 8, -1, -1, -1, -1, -1, -1, -1, -1, -1, -1],
    [4, 3, 0, 4, 7, 3, 6, 5, 10, -1, -1, -1, -1, -1, -1, -1],
    [1, 9, 0, 5, 10, 6, 8, 4, 7, -1, -1, -1, -1, -1, -1, -1],
    [10, 6, 5, 1, 9, 7, 1, 7, 3, 7, 9, 4, -1, -1, -1, -1],
    [6, 1, 2, 6, 5, 1, 4, 7, 8, -1, -1, -1, -1, -1, -1, -1],
    [1, 2, 5, 5, 2, 6, 3, 0, 4, 3, 4, 7, -1, -1, -1, -1],
    [8, 4, 7, 9, 0, 5, 0, 6, 5, 0, 2, 6, -1, -1, -1, -1],
    [7, 3, 9, 7, 9, 4, 3, 2, 9, 5, 9, 6, 2, 6, 9, -1],
    [3, 11, 2, 7, 8, 4, 10, 6, 5, -1, -1, -1, -1, -1, -1, -1],
    [5, 10, 6, 4, 7, 2, 4, 2, 0, 2, 7, 11, -1, -1, -1, -1],
    [0, 1, 9, 4, 7, 8, 2, 3, 11, 5, 10, 6, -1, -1, -1, -1],
    [9, 2, 1, 9, 11, 2, 9, 4, 11, 7, 11, 4, 5, 10, 6, -1],
    [8, 4, 7, 3, 11, 5, 3, 5, 1, 5, 11, 6, -1, -1, -1, -1],
    [5, 1, 11, 5, 11, 6, 1, 0, 11, 7, 11, 4, 0, 4, 11, -1],
    [0, 5, 9, 0, 6, 5, 0, 3, 6, 11, 6, 3, 8, 4, 7, -1],
    [6, 5, 9, 6, 9, 11, 4, 7, 9, 7, 11, 9, -1, -1, -1, -1],
    [10, 4, 9, 6, 4, 10, -1, -1, -1, -1, -1, -1, -1, -1, -1, -1],
    [4, 10, 6, 4, 9, 10, 0, 8, 3, -1, -1, -1, -1, -1, -1, -1],
    [10, 0, 1, 10, 6, 0, 6, 4, 0, -1, -1, -1, -1, -1, -1, -1],
    [8, 3, 1, 8, 1, 6, 8, 6, 4, 6, 1, 10, -1, -1, -1, -1],
    [1, 4, 9, 1, 2, 4, 2, 6, 4, -1, -1, -1, -1, -1, -1, -1],
    [3, 0, 8, 1, 2, 9, 2, 4, 9, 2, 6, 4, -1, -1, -1, -1],
    [0, 2, 4, 4, 2, 6, -1, -1, -1, -1, -1, -1, -1, -1, -1, -1],
    [8, 3, 2, 8, 2, 4, 4, 2, 6, -1, -1, -1, -1, -1, -1, -1],
    [10, 4, 9, 10, 6, 4, 11, 2, 3, -1, -1, -1, -1, -1, -1, -1],
    [0, 8, 2, 2, 8, 11, 4, 9, 10, 4, 10, 6, -1, -1, -1, -1],
    [3, 11, 2, 0, 1, 6, 0, 6, 4, 6, 1, 10, -1, -1, -1, -1],
    [6, 4, 1, 6, 1, 10, 4, 8, 1, 2, 1, 11, 8, 11, 1, -1],
    [9, 6, 4, 9, 3, 6, 9, 1, 3, 11, 6, 3, -1, -1, -1, -1],
    [8, 11, 1, 8, 1, 0, 11, 6, 1, 9, 1, 4, 6, 4, 1, -1],
    [3, 11, 6, 3, 6, 0, 0, 6, 4, -1, -1, -1, -1, -1, -1, -1],
    [6, 4, 8, 11, 6, 8, -1, -1, -1, -1, -1, -1, -1, -1, -1, -1],
    [7, 10, 6, 7, 8, 10, 8, 9, 10, -1, -1, -1, -1, -1, -1, -1],
    [0, 7, 3, 0, 10, 7, 0, 9, 10, 6, 7, 10, -1, -1, -1, -1],
    [10, 6, 7, 1, 10, 7, 1, 7, 8, 1, 8, 0, -1, -1, -1, -1],
    [10, 6, 7, 10, 7, 1, 1, 7, 3, -1, -1, -1, -1, -1, -1, -1],
    [1, 2, 6, 1, 6, 8, 1, 8, 9, 8, 6, 7, -1, -1, -1, -1],
    [2, 6, 9, 2, 9, 1, 6, 7, 9, 0, 9, 3, 7, 3, 9, -1],
    [7, 8, 0, 7, 0, 6, 6, 0, 2, -1, -1, -1, -1, -1, -1, -1],
    [7, 3, 2, 6, 7, 2, -1, -1, -1, -1, -1, -1, -1, -1, -1, -1],
    [2, 3, 11, 10, 6, 8, 10, 8, 9, 8, 6, 7, -1, -1, -1, -1],
    [2, 0, 7, 2, 7, 11, 0, 9, 7, 6, 7, 10, 9, 10, 7, -1],
    [1, 8, 0, 1, 7, 8, 1, 10, 7, 6, 7, 10, 2, 3, 11, -1],
    [11, 2, 1, 11, 1, 7, 10, 6, 1, 6, 7, 1, -1, -1, -1, -1],
    [8, 9, 6, 8, 6, 7, 9, 1, 6, 11, 6, 3, 1, 3, 6, -1],
    [0, 9, 1, 11, 6, 7, -1, -1, -1, -1, -1, -1, -1, -1, -1, -1],
    [7, 8, 0, 7, 0, 6, 3, 11, 0, 11, 6, 0, -1, -1, -1, -1],
    [7, 11, 6, -1, -1, -1, -1, -1, -1, -1, -1, -1, -1, -1, -1, -1],
    [7, 6, 11, -1, -1, -1, -1, -1, -1, -1, -1, -1, -1, -1, -1, -1],
    [3, 0, 8, 11, 7, 6, -1, -1, -1, -1, -1, -1, -1, -1, -1, -1],
    [0, 1, 9, 11, 7, 6, -1, -1, -1, -1, -1, -1, -1, -1, -1, -1],
    [8, 1, 9, 8, 3, 1, 11, 7, 6, -1, -1, -1, -1, -1, -1, -1],
    [10, 1, 2, 6, 11, 7, -1, -1, -1, -1, -1, -1, -1, -1, -1, -1],
    [1, 2, 10, 3, 0, 8, 6, 11, 7, -1, -1, -1, -1, -1, -1, -1],
    [2, 9, 0, 2, 10, 9, 6, 11, 7, -1, -1, -1, -1, -1, -1, -1],
    [6, 11, 7, 2, 10, 3, 10, 8, 3, 10, 9, 8, -1, -1, -1, -1],
    [7, 2, 3, 6, 2, 7, -1, -1, -1, -1, -1, -1, -1, -1, -1, -1],
    [7, 0, 8, 7, 6, 0, 6, 2, 0, -1, -1, -1, -1, -1, -1, -1],
    [2, 7, 6, 2, 3, 7, 0, 1, 9, -1, -1, -1, -1, -1, -1, -1],
    [1, 6, 2, 1, 8, 6, 1, 9, 8, 8, 7, 6, -1, -1, -1, -1],
    [10, 7, 6, 10, 1, 7, 1, 3, 7, -1, -1, -1, -1, -1, -1, -1],
    [10, 7, 6, 1, 7, 10, 1, 8, 7, 1, 0, 8, -1, -1, -1, -1],
    [0, 3, 7, 0, 7, 10, 0, 10, 9, 6, 10, 7, -1, -1, -1, -1],
    [7, 6, 10, 7, 10, 8, 8, 10, 9, -1, -1, -1, -1, -1, -1, -1],
    [6, 8, 4, 11, 8, 6, -1, -1, -1, -1, -1, -1, -1, -1, -1, -1],
    [3, 6, 11, 3, 0, 6, 0, 4, 6, -1, -1, -1, -1, -1, -1, -1],
    [8, 6, 11, 8, 4, 6, 9, 0, 1, -1, -1, -1, -1, -1, -1, -1],
    [9, 4, 6, 9, 6, 3, 9, 3, 1, 11, 3, 6, -1, -1, -1, -1],
    [6, 8, 4, 6, 11, 8, 2, 10, 1, -1, -1, -1, -1, -1, -1, -1],
    [1, 2, 10, 3, 0, 11, 0, 6, 11, 0, 4, 6, -1, -1, -1, -1],
    [4, 11, 8, 4, 6, 11, 0, 2, 9, 2, 10, 9, -1, -1, -1, -1],
    [10, 9, 3, 10, 3, 2, 9, 4, 3, 11, 3, 6, 4, 6, 3, -1],
    [8, 2, 3, 8, 4, 2, 4, 6, 2, -1, -1, -1, -1, -1, -1, -1],
    [0, 4, 2, 4, 6, 2, -1, -1, -1, -1, -1, -1, -1, -1, -1, -1],
    [1, 9, 0, 2, 3, 4, 2, 4, 6, 4, 3, 8, -1, -1, -1, -1],
    [1, 9, 4, 1, 4, 2, 2, 4, 6, -1, -1, -1, -1, -1, -1, -1],
    [8, 1, 3, 8, 6, 1, 8, 4, 6, 6, 10, 1, -1, -1, -1, -1],
    [10, 1, 0, 10, 0, 6, 6, 0, 4, -1, -1, -1, -1, -1, -1, -1],
    [4, 6, 3, 4, 3, 8, 6, 10, 3, 0, 3, 9, 10, 9, 3, -1],
    [10, 9, 4, 6, 10, 4, -1, -1, -1, -1, -1, -1, -1, -1, -1, -1],
    [4, 9, 5, 7, 6, 11, -1, -1, -1, -1, -1, -1, -1, -1, -1, -1],
    [0, 8, 3, 4, 9, 5, 11, 7, 6, -1, -1, -1, -1, -1, -1, -1],
    [5, 0, 1, 5, 4, 0, 7, 6, 11, -1, -1, -1, -1, -1, -1, -1],
    [11, 7, 6, 8, 3, 4, 3, 5, 4, 3, 1, 5, -1, -1, -1, -1],
    [9, 5, 4, 10, 1, 2, 7, 6, 11, -1, -1, -1, -1, -1, -1, -1],
    [6, 11, 7, 1, 2, 10, 0, 8, 3, 4, 9, 5, -1, -1, -1, -1],
    [7, 6, 11, 5, 4, 10, 4, 2, 10, 4, 0, 2, -1, -1, -1, -1],
    [3, 4, 8, 3, 5, 4, 3, 2, 5, 10, 5, 2, 11, 7, 6, -1],
    [7, 2, 3, 7, 6, 2, 5, 4, 9, -1, -1, -1, -1, -1, -1, -1],
    [9, 5, 4, 0, 8, 6, 0, 6, 2, 6, 8, 7, -1, -1, -1, -1],
    [3, 6, 2, 3, 7, 6, 1, 5, 0, 5, 4, 0, -1, -1, -1, -1],
    [6, 2, 8, 6, 8, 7, 2, 1, 8, 4, 8, 5, 1, 5, 8, -1],
    [9, 5, 4, 10, 1, 6, 1, 7, 6, 1, 3, 7, -1, -1, -1, -1],
    [1, 6, 10, 1, 7, 6, 1, 0, 7, 8, 7, 0, 9, 5, 4, -1],
    [4, 0, 10, 4, 10, 5, 0, 3, 10, 6, 10, 7, 3, 7, 10, -1],
    [7, 6, 10, 7, 10, 8, 5, 4, 10, 4, 8, 10, -1, -1, -1, -1],
    [6, 9, 5, 6, 11, 9, 11, 8, 9, -1, -1, -1, -1, -1, -1, -1],
    [3, 6, 11, 0, 6, 3, 0, 5, 6, 0, 9, 5, -1, -1, -1, -1],
    [0, 11, 8, 0, 5, 11, 0, 1, 5, 5, 6, 11, -1, -1, -1, -1],
    [6, 11, 3, 6, 3, 5, 5, 3, 1, -1, -1, -1, -1, -1, -1, -1],
    [1, 2, 10, 9, 5, 11, 9, 11, 8, 11, 5, 6, -1, -1, -1, -1],
    [0, 11, 3, 0, 6, 11, 0, 9, 6, 5, 6, 9, 1, 2, 10, -1],
    [11, 8, 5, 11, 5, 6, 8, 0, 5, 10, 5, 2, 0, 2, 5, -1],
    [6, 11, 3, 6, 3, 5, 2, 10, 3, 10, 5, 3, -1, -1, -1, -1],
    [5, 8, 9, 5, 2, 8, 5, 6, 2, 3, 8, 2, -1, -1, -1, -1],
    [9, 5, 6, 9, 6, 0, 0, 6, 2, -1, -1, -1, -1, -1, -1, -1],
    [1, 5, 8, 1, 8, 0, 5, 6, 8, 3, 8, 2, 6, 2, 8, -1],
    [1, 5, 6, 2, 1, 6, -1, -1, -1, -1, -1, -1, -1, -1, -1, -1],
    [1, 3, 6, 1, 6, 10, 3, 8, 6, 5, 6, 9, 8, 9, 6, -1],
    [10, 1, 0, 10, 0, 6, 9, 5, 0, 5, 6, 0, -1, -1, -1, -1],
    [0, 3, 8, 5, 6, 10, -1, -1, -1, -1, -1, -1, -1, -1, -1, -1],
    [10, 5, 6, -1, -1, -1, -1, -1, -1, -1, -1, -1, -1, -1, -1, -1],
    [11, 5, 10, 7, 5, 11, -1, -1, -1, -1, -1, -1, -1, -1, -1, -1],
    [11, 5, 10, 11, 7, 5, 8, 3, 0, -1, -1, -1, -1, -1, -1, -1],
    [5, 11, 7, 5, 10, 11, 1, 9, 0, -1, -1, -1, -1, -1, -1, -1],
    [10, 7, 5, 10, 11, 7, 9, 8, 1, 8, 3, 1, -1, -1, -1, -1],
    [11, 1, 2, 11, 7, 1, 7, 5, 1, -1, -1, -1, -1, -1, -1, -1],
    [0, 8, 3, 1, 2, 7, 1, 7, 5, 7, 2, 11, -1, -1, -1, -1],
    [9, 7, 5, 9, 2, 7, 9, 0, 2, 2, 11, 7, -1, -1, -1, -1],
    [7, 5, 2, 7, 2, 11, 5, 9, 2, 3, 2, 8, 9, 8, 2, -1],
    [2, 5, 10, 2, 3, 5, 3, 7, 5, -1, -1, -1, -1, -1, -1, -1],
    [8, 2, 0, 8, 5, 2, 8, 7, 5, 10, 2, 5, -1, -1, -1, -1],
    [9, 0, 1, 5, 10, 3, 5, 3, 7, 3, 10, 2, -1, -1, -1, -1],
    [9, 8, 2, 9, 2, 1, 8, 7, 2, 10, 2, 5, 7, 5, 2, -1],
    [1, 3, 5, 3, 7, 5, -1, -1, -1, -1, -1, -1, -1, -1, -1, -1],
    [0, 8, 7, 0, 7, 1, 1, 7, 5, -1, -1, -1, -1, -1, -1, -1],
    [9, 0, 3, 9, 3, 5, 5, 3, 7, -1, -1, -1, -1, -1, -1, -1],
    [9, 8, 7, 5, 9, 7, -1, -1, -1, -1, -1, -1, -1, -1, -1, -1],
    [5, 8, 4, 5, 10, 8, 10, 11, 8, -1, -1, -1, -1, -1, -1, -1],
    [5, 0, 4, 5, 11, 0, 5, 10, 11, 11, 3, 0, -1, -1, -1, -1],
    [0, 1, 9, 8, 4, 10, 8, 10, 11, 10, 4, 5, -1, -1, -1, -1],
    [10, 11, 4, 10, 4, 5, 11, 3, 4, 9, 4, 1, 3, 1, 4, -1],
    [2, 5, 1, 2, 8, 5, 2, 11, 8, 4, 5, 8, -1, -1, -1, -1],
    [0, 4, 11, 0, 11, 3, 4, 5, 11, 2, 11, 1, 5, 1, 11, -1],
    [0, 2, 5, 0, 5, 9, 2, 11, 5, 4, 5, 8, 11, 8, 5, -1],
    [9, 4, 5, 2, 11, 3, -1, -1, -1, -1, -1, -1, -1, -1, -1, -1],
    [2, 5, 10, 3, 5, 2, 3, 4, 5, 3, 8, 4, -1, -1, -1, -1],
    [5, 10, 2, 5, 2, 4, 4, 2, 0, -1, -1, -1, -1, -1, -1, -1],
    [3, 10, 2, 3, 5, 10, 3, 8, 5, 4, 5, 8, 0, 1, 9, -1],
    [5, 10, 2, 5, 2, 4, 1, 9, 2, 9, 4, 2, -1, -1, -1, -1],
    [8, 4, 5, 8, 5, 3, 3, 5, 1, -1, -1, -1, -1, -1, -1, -1],
    [0, 4, 5, 1, 0, 5, -1, -1, -1, -1, -1, -1, -1, -1, -1, -1],
    [8, 4, 5, 8, 5, 3, 9, 0, 5, 0, 3, 5, -1, -1, -1, -1],
    [9, 4, 5, -1, -1, -1, -1, -1, -1, -1, -1, -1, -1, -1, -1, -1],
    [4, 11, 7, 4, 9, 11, 9, 10, 11, -1, -1, -1, -1, -1, -1, -1],
    [0, 8, 3, 4, 9, 7, 9, 11, 7, 9, 10, 11, -1, -1, -1, -1],
    [1, 10, 11, 1, 11, 4, 1, 4, 0, 7, 4, 11, -1, -1, -1, -1],
    [3, 1, 4, 3, 4, 8, 1, 10, 4, 7, 4, 11, 10, 11, 4, -1],
    [4, 11, 7, 9, 11, 4, 9, 2, 11, 9, 1, 2, -1, -1, -1, -1],
    [9, 7, 4, 9, 11, 7, 9, 1, 11, 2, 11, 1, 0, 8, 3, -1],
    [11, 7, 4, 11, 4, 2, 2, 4, 0, -1, -1, -1, -1, -1, -1, -1],
    [11, 7, 4, 11, 4, 2, 8, 3, 4, 3, 2, 4, -1, -1, -1, -1],
    [2, 9, 10, 2, 7, 9, 2, 3, 7, 7, 4, 9, -1, -1, -1, -1],
    [9, 10, 7, 9, 7, 4, 10, 2, 7, 8, 7, 0, 2, 0, 7, -1],
    [3, 7, 10, 3, 10, 2, 7, 4, 10, 1, 10, 0, 4, 0, 10, -1],
    [1, 10, 2, 8, 7, 4, -1, -1, -1, -1, -1, -1, -1, -1, -1, -1],
    [4, 9, 1, 4, 1, 7, 7, 1, 3, -1, -1, -1, -1, -1, -1, -1],
    [4, 9, 1, 4, 1, 7, 0, 8, 1, 8, 7, 1, -1, -1, -1, -1],
    [4, 0, 3, 7, 4, 3, -1, -1, -1, -1, -1, -1, -1, -1, -1, -1],
    [4, 8, 7, -1, -1, -1, -1, -1, -1, -1, -1, -1, -1, -1, -1, -1],
    [9, 10, 8, 10, 11, 8, -1, -1, -1, -1, -1, -1, -1, -1, -1, -1],
    [3, 0, 9, 3, 9, 11, 11, 9, 10, -1, -1, -1, -1, -1, -1, -1],
    [0, 1, 10, 0, 10, 8, 8, 10, 11, -1, -1, -1, -1, -1, -1, -1],
    [3, 1, 10, 11, 3, 10, -1, -1, -1, -1, -1, -1, -1, -1, -1, -1],
    [1, 2, 11, 1, 11, 9, 9, 11, 8, -1, -1, -1, -1, -1, -1, -1],
    [3, 0, 9, 3, 9, 11, 1, 2, 9, 2, 11, 9, -1, -1, -1, -1],
    [0, 2, 11, 8, 0, 11, -1, -1, -1, -1, -1, -1, -1, -1, -1, -1],
    [3, 2, 11, -1, -1, -1, -1, -1, -1, -1, -1, -1, -1, -1, -1, -1],
    [2, 3, 8, 2, 8, 10, 10, 8, 9, -1, -1, -1, -1, -1, -1, -1],
    [9, 10, 2, 0, 9, 2, -1, -1, -1, -1, -1, -1, -1, -1, -1, -1],
    [2, 3, 8, 2, 8, 10, 0, 1, 8, 1, 10, 8, -1, -1, -1, -1],
    [1, 10, 2, -1, -1, -1, -1, -1, -1, -1, -1, -1, -1, -1, -1, -1],
    [1, 3, 8, 9, 1, 8, -1, -1, -1, -1, -1, -1, -1, -1, -1, -1],
    [0, 9, 1, -1, -1, -1, -1, -1, -1, -1, -1, -1, -1, -1, -1, -1],
    [0, 3, 8, -1, -1, -1, -1, -1, -1, -1, -1, -1, -1, -1, -1, -1],
    [-1, -1, -1, -1, -1, -1, -1, -1, -1, -1, -1, -1, -1, -1, -1, -1]
  ]"

section \<open>Edge interpolation and the cell extractor\<close>

definition interpolate_3d :: "Point3D \<Rightarrow> Point3D \<Rightarrow> real \<Rightarrow> real \<Rightarrow> Point3D" where
  "interpolate_3d p1 p2 f1 f2 =
     (if \<bar>f2 - f1\<bar> < 1 / 10 ^ 9
      then Point3D ((px p1 + px p2) / 2) ((py p1 + py p2) / 2) ((pz p1 + pz p2) / 2)
      else (let t = (0 - f1) / (f2 - f1)
            in Point3D (px p1 + t * (px p2 - px p1))
                       (py p1 + t * (py p2 - py p1))
                       (pz p1 + t * (pz p2 - pz p1))))"

definition cube_vertices :: "Point3D \<Rightarrow> Point3D \<Rightarrow> Point3D list" where
  "cube_vertices start endp =
     [Point3D (px start) (py start) (pz start), Point3D (px endp) (py start) (pz start),
      Point3D (px endp) (py endp) (pz start), Point3D (px start) (py endp) (pz start),
      Point3D (px start) (py start) (pz endp), Point3D (px endp) (py start) (pz endp),
      Point3D (px endp) (py endp) (pz endp), Point3D (px start) (py endp) (pz endp)]"

definition cube_values :: "field \<Rightarrow> Point3D list \<Rightarrow> real list" where
  "cube_values f vertices = map (\<lambda>v. f (px v) (py v) (pz v)) vertices"

text \<open>
  The configuration index: bit \<open>i\<close> is set when the field is negative at corner \<open>i\<close>.
  The source keeps it in an \<^verbatim>\<open>int\<close>; it never leaves \<open>0..255\<close>.
\<close>

definition cube_config :: "real list \<Rightarrow> int" where
  "cube_config values =
     foldl (\<lambda>config i. if values ! i < 0 then config OR push_bit i 1 else config) 0 [0..<8]"

text \<open>
  The twelve slots of \<^verbatim>\<open>edge_points\<close>. A slot is written only when its bit of the edge
  mask is set; \<open>None\<close> is a slot that still holds the default-constructed point.
\<close>

definition edge_points :: "int \<Rightarrow> Point3D list \<Rightarrow> real list \<Rightarrow> Point3D option list" where
  "edge_points emask vertices values =
     [if emask AND 1 \<noteq> 0 then Some (interpolate_3d (vertices ! 0) (vertices ! 1) (values ! 0) (values ! 1)) else None,
      if emask AND 2 \<noteq> 0 then Some (interpolate_3d (vertices ! 1) (vertices ! 2) (values ! 1) (values ! 2)) else None,
      if emask AND 4 \<noteq> 0 then Some (interpolate_3d (vertices ! 2) (vertices ! 3) (values ! 2) (values ! 3)) else None,
      if emask AND 8 \<noteq> 0 then Some (interpolate_3d (vertices ! 3) (vertices ! 0) (values ! 3) (values ! 0)) else None,
      if emask AND 16 \<noteq> 0 then Some (interpolate_3d (vertices ! 4) (vertices ! 5) (values ! 4) (values ! 5)) else None,
      if emask AND 32 \<noteq> 0 then Some (interpolate_3d (vertices ! 5) (vertices ! 6) (values ! 5) (values ! 6)) else None,
      if emask AND 64 \<noteq> 0 then Some (interpolate_3d (vertices ! 6) (vertices ! 7) (values ! 6) (values ! 7)) else None,
      if emask AND 128 \<noteq> 0 then Some (interpolate_3d (vertices ! 7) (vertices ! 4) (values ! 7) (values ! 4)) else None,
      if emask AND 256 \<noteq> 0 then Some (interpolate_3d (vertices ! 0) (vertices ! 4) (values ! 0) (values ! 4)) else None,
      if emask AND 512 \<noteq> 0 then Some (interpolate_3d (vertices ! 1) (vertices ! 5) (values ! 1) (values ! 5)) else None,
      if emask AND 1024 \<noteq> 0 then Some (interpolate_3d (vertices ! 2) (vertices ! 6) (values ! 2) (values ! 6)) else None,
      if emask AND 2048 \<noteq> 0 then Some (interpolate_3d (vertices ! 3) (vertices ! 7) (values ! 3) (values ! 7)) else None]"

text \<open>
  The triangle-assembly loop \<^verbatim>\<open>for (i = 0; row[i] != -1; i += 3)\<close>, as a recursion on
  the part of the row not yet read. It returns the three slots read for each triangle.
\<close>

fun tri_loop :: "'a list \<Rightarrow> int list \<Rightarrow> fault + ('a \<times> 'a \<times> 'a) list" where
  "tri_loop slots [] = Inl OutOfBounds"
| "tri_loop slots (a # rest) =
     (if a = - 1 then Inr []
      else (case rest of
              b # c # rest' \<Rightarrow>
                (case (at_index slots a, at_index slots b, at_index slots c) of
                   (Inr u, Inr v, Inr w) \<Rightarrow>
                     (case tri_loop slots rest' of
                        Inl err \<Rightarrow> Inl err
                      | Inr ts \<Rightarrow> Inr ((u, v, w) # ts))
                 | _ \<Rightarrow> Inl OutOfBounds)
            | _ \<Rightarrow> Inl OutOfBounds))"

definition slot_point :: "Point3D option \<Rightarrow> Point3D" where
  "slot_point s = (case s of Some p \<Rightarrow> p | None \<Rightarrow> Point3D 0 0 0)"

definition marching_cubes :: "Point3D \<Rightarrow> Point3D \<Rightarrow> field \<Rightarrow> fault + Triangle list" where
  "marching_cubes start endp f =
     (let vertices = cube_vertices start endp;
          values = cube_values f vertices;
          config = cube_config values
      in case at_index edgeTable config of
           Inl err \<Rightarrow> Inl err
         | Inr emask \<Rightarrow>
             if emask = 0 then Inr []
             else (case at_index triTable config of
                     Inl err \<Rightarrow> Inl err
                   | Inr row \<Rightarrow>
                       (case tri_loop (edge_points emask vertices values) row of
                          Inl err \<Rightarrow> Inl err
                        | Inr ts \<Rightarrow>
                            Inr (map (\<lambda>(u, v, w). Triangle (slot_point u) (slot_point v) (slot_point w)) ts))))"

section \<open>The containment probe\<close>

text \<open>
  The probe draws from the C library's \<^verbatim>\<open>rand()\<close>, whose hidden state is shared by the
  whole process. The library is not part of the program, so the generator is a parameter:
  \<open>rand\<close> maps a generator state to the number drawn and the next state, and \<open>RAND_MAX\<close>
  is the largest number it may return. The state is passed through every function that
  draws.
\<close>

definition get_random_point_3d ::
  "('g \<Rightarrow> int \<times> 'g) \<Rightarrow> int \<Rightarrow> real \<Rightarrow> real \<Rightarrow> real \<Rightarrow> real \<Rightarrow> real \<Rightarrow> real \<Rightarrow> 'g \<Rightarrow> Point3D \<times> 'g" where
  "get_random_point_3d rand RAND_MAX xmin ymin zmin xmax ymax zmax g =
     (let (r1, g1) = rand g;
          x = xmin + real_of_int r1 / (real_of_int RAND_MAX / (xmax - xmin));
          (r2, g2) = rand g1;
          y = ymin + real_of_int r2 / (real_of_int RAND_MAX / (ymax - ymin));
          (r3, g3) = rand g2;
          z = zmin + real_of_int r3 / (real_of_int RAND_MAX / (zmax - zmin))
      in (Point3D x y z, g3))"

text \<open>The first loop of the probe: \<open>n\<close> sample points, pushed in the order drawn.\<close>

fun random_samples ::
  "('g \<Rightarrow> int \<times> 'g) \<Rightarrow> int \<Rightarrow> Point3D \<Rightarrow> Point3D \<Rightarrow> nat \<Rightarrow> 'g \<Rightarrow> Point3D list \<times> 'g" where
  "random_samples rand RAND_MAX start endp 0 g = ([], g)"
| "random_samples rand RAND_MAX start endp (Suc n) g =
     (let (p, g1) = get_random_point_3d rand RAND_MAX (px start) (py start) (pz start)
                      (px endp) (py endp) (pz endp) g;
          (ps, g2) = random_samples rand RAND_MAX start endp n g1
      in (p # ps, g2))"

text \<open>
  The second loop: the field is evaluated sample by sample, and the loop returns as soon
  as both flags are set. The first component is the value returned; the second counts
  the samples at which the field was evaluated, which the source does not return and
  which is kept here to tell an early return from a full pass.
\<close>

fun sign_scan :: "field \<Rightarrow> Point3D list \<Rightarrow> bool \<Rightarrow> bool \<Rightarrow> bool \<times> nat" where
  "sign_scan f [] has_positive has_negative = (False, 0)"
| "sign_scan f (p # ps) has_positive has_negative =
     (let v = f (px p) (py p) (pz p);
          has_positive' = (if v \<ge> 0 then True else has_positive);
          has_negative' = (if v \<ge> 0 then has_negative else if v < 0 then True else has_negative)
      in if has_positive' \<and> has_negative' then (True, 1)
         else (let (found, evaluated) = sign_scan f ps has_positive' has_negative'
               in (found, Suc evaluated)))"

definition cube_contains_surface ::
  "('g \<Rightarrow> int \<times> 'g) \<Rightarrow> int \<Rightarrow> field \<Rightarrow> Point3D \<Rightarrow> Point3D \<Rightarrow> 'g \<Rightarrow> bool \<times> 'g" where
  "cube_contains_surface rand RAND_MAX f start endp g =
     (let (samples, g') = random_samples rand RAND_MAX start endp 10000 g
      in (fst (sign_scan f samples False False), g'))"

section \<open>The octree driver\<close>

text \<open>The argument pairs of the eight recursive calls, in the order of their result slots.\<close>

definition octants :: "Point3D \<Rightarrow> Point3D \<Rightarrow> (Point3D \<times> Point3D) list" where
  "octants start endp =
     (let mid_x = (px start + px endp) / 2;
          mid_y = (py start + py endp) / 2;
          mid_z = (pz start + pz endp) / 2;
          mid = Point3D mid_x mid_y mid_z
      in [(start, mid),
          (Point3D mid_x (py start) (pz start), Point3D (px endp) mid_y mid_z),
          (Point3D (px start) mid_y (pz start), Point3D mid_x (py endp) mid_z),
          (Point3D mid_x mid_y (pz start), Point3D (px endp) (py endp) mid_z),
          (Point3D (px start) (py start) mid_z, Point3D mid_x mid_y (pz endp)),
          (Point3D mid_x (py start) mid_z, Point3D (px endp) mid_y (pz endp)),
          (Point3D (px start) mid_y mid_z, Point3D mid_x (py endp) (pz endp)),
          (mid, endp)])"

text \<open>
  The tasks of one node. The source starts them as OpenMP tasks, which may run at the
  same time and draw from the one generator; each stores its result in a slot of its
  own. The model runs them one after the other in slot order and hands the generator
  state from each to the next; a fault or an unfinished task ends the run. The
  statements below hold for every generator and every state, so they do not depend on
  which numbers a task happens to draw.
\<close>

fun run_tasks ::
  "(Point3D \<Rightarrow> Point3D \<Rightarrow> 'g \<Rightarrow> (fault + Triangle list \<times> 'g) option) \<Rightarrow>
   (Point3D \<times> Point3D) list \<Rightarrow> 'g \<Rightarrow> (fault + Triangle list list \<times> 'g) option" where
  "run_tasks task [] g = Some (Inr ([], g))"
| "run_tasks task ((s, e) # boxes) g =
     (case task s e g of
        None \<Rightarrow> None
      | Some (Inl err) \<Rightarrow> Some (Inl err)
      | Some (Inr (ts, g1)) \<Rightarrow>
          (case run_tasks task boxes g1 of
             None \<Rightarrow> None
           | Some (Inl err) \<Rightarrow> Some (Inl err)
           | Some (Inr (sub_results, g2)) \<Rightarrow> Some (Inr (ts # sub_results, g2))))"

text \<open>
  The recursion is bounded by a depth budget: \<open>None\<close> means that the budget ran out
  before the call returned. The source has no such bound.
\<close>

fun surface_to_triangles ::
  "('g \<Rightarrow> int \<times> 'g) \<Rightarrow> int \<Rightarrow> nat \<Rightarrow> field \<Rightarrow> Point3D \<Rightarrow> Point3D \<Rightarrow> real \<Rightarrow> 'g \<Rightarrow>
   (fault + Triangle list \<times> 'g) option" where
  "surface_to_triangles rand RAND_MAX 0 f start endp precision g = None"
| "surface_to_triangles rand RAND_MAX (Suc depth) f start endp precision g =
     (if px endp - px start < precision \<or> py endp - py start < precision
         \<or> pz endp - pz start < precision
      then (case marching_cubes start endp f of
              Inl err \<Rightarrow> Some (Inl err)
            | Inr ts \<Rightarrow> Some (Inr (ts, g)))
      else (let (found, g1) = cube_contains_surface rand RAND_MAX f start endp g
            in if \<not> found then Some (Inr ([], g1))
               else (case run_tasks (\<lambda>s e. surface_to_triangles rand RAND_MAX depth f s e precision)
                            (octants start endp) g1 of
                       None \<Rightarrow> None
                     | Some (Inl err) \<Rightarrow> Some (Inl err)
                     | Some (Inr (sub_results, g2)) \<Rightarrow> Some (Inr (concat sub_results, g2)))))"

declare surface_to_triangles.simps [simp del]

section \<open>Writing the mesh\<close>

text \<open>
  The lines \<^verbatim>\<open>draw_surface\<close> writes to the file, one value per line. The decimal
  rendering of the coordinates is left out: a vertex line carries its three numbers.
  The face indices are \<^verbatim>\<open>int\<close> in the source and stay far below its range for
  any list of triangles that fits in memory.
\<close>

datatype obj_line =
    Title
  | Count nat
  | Blank
  | Vertex real real real
  | Face int int int

definition vertex_lines :: "Triangle list \<Rightarrow> obj_line list" where
  "vertex_lines triangles =
     concat (map (\<lambda>triangle.
        [Vertex (px (tp1 triangle)) (py (tp1 triangle)) (pz (tp1 triangle)),
         Vertex (px (tp2 triangle)) (py (tp2 triangle)) (pz (tp2 triangle)),
         Vertex (px (tp3 triangle)) (py (tp3 triangle)) (pz (tp3 triangle))]) triangles)"

definition face_lines :: "Triangle list \<Rightarrow> obj_line list" where
  "face_lines triangles =
     map (\<lambda>i. let base = int i * 6 + 1 in Face base (base + 1) (base + 2)) [0..<length triangles]"

text \<open>
  \<open>opened\<close> says whether the output file could be opened; when it could not, the
  function returns before it does anything else.
\<close>

definition draw_surface ::
  "('g \<Rightarrow> int \<times> 'g) \<Rightarrow> int \<Rightarrow> nat \<Rightarrow> field \<Rightarrow> bool \<Rightarrow>
   real \<Rightarrow> real \<Rightarrow> real \<Rightarrow> real \<Rightarrow> real \<Rightarrow> real \<Rightarrow> real \<Rightarrow> 'g \<Rightarrow>
   (fault + obj_line list \<times> 'g) option" where
  "draw_surface rand RAND_MAX depth f opened xmin ymin zmin xmax ymax zmax precision g =
     (if \<not> opened then Some (Inr ([], g))
      else (case surface_to_triangles rand RAND_MAX depth f
                   (Point3D xmin ymin zmin) (Point3D xmax ymax zmax) precision g of
              None \<Rightarrow> None
            | Some (Inl err) \<Rightarrow> Some (Inl err)
            | Some (Inr (triangles, g')) \<Rightarrow>
                Some (Inr ([Title, Count (length triangles), Blank]
                           @ vertex_lines triangles @ face_lines triangles, g'))))"

section \<open>Vocabulary of the statements\<close>

text \<open>A point of the closed box spanned by two corners, whatever their order.\<close>

definition in_box :: "Point3D \<Rightarrow> Point3D \<Rightarrow> Point3D \<Rightarrow> bool" where
  "in_box start endp p \<longleftrightarrow>
     min (px start) (px endp) \<le> px p \<and> px p \<le> max (px start) (px endp) \<and>
     min (py start) (py endp) \<le> py p \<and> py p \<le> max (py start) (py endp) \<and>
     min (pz start) (pz endp) \<le> pz p \<and> pz p \<le> max (pz start) (pz endp)"

definition field_at :: "field \<Rightarrow> Point3D \<Rightarrow> real" where
  "field_at f p = f (px p) (py p) (pz p)"

text \<open>What the C standard promises of \<^verbatim>\<open>rand()\<close>: a number from \<open>0\<close> to \<open>RAND_MAX\<close>.\<close>

definition rand_in_range :: "('g \<Rightarrow> int \<times> 'g) \<Rightarrow> int \<Rightarrow> bool" where
  "rand_in_range rand RAND_MAX \<longleftrightarrow>
     0 < RAND_MAX \<and> (\<forall>g. 0 \<le> fst (rand g) \<and> fst (rand g) \<le> RAND_MAX)"

text \<open>The number returned by the \<open>k\<close>-th call of \<open>rand\<close> from state \<open>g\<close>, counting from 0.\<close>

definition draw :: "('g \<Rightarrow> int \<times> 'g) \<Rightarrow> 'g \<Rightarrow> nat \<Rightarrow> int" where
  "draw rand g k = fst (rand (((\<lambda>h. snd (rand h)) ^^ k) g))"

text \<open>A generator that also counts how often it has been called.\<close>

definition counting :: "('g \<Rightarrow> int \<times> 'g) \<Rightarrow> nat \<times> 'g \<Rightarrow> int \<times> (nat \<times> 'g)" where
  "counting rand = (\<lambda>(k, g). (fst (rand g), (Suc k, snd (rand g))))"

text \<open>A generator for concrete runs: it returns the numbers \<open>0, 1, \<dots>, 6, 0, 1, \<dots>\<close>.\<close>

definition cyclic_rand :: "nat \<Rightarrow> int \<times> nat" where
  "cyclic_rand g = (int (g mod 7), Suc g)"

section \<open>Edge interpolation\<close>

text \<open>
  C4. \<open>interpolate_3d\<close> returns the componentwise midpoint of its two points when the
  two field values differ by less than \<open>1e-9\<close> in absolute value, and otherwise the point
  \<open>p1 + t * (p2 - p1)\<close> with \<open>t = (0 - f1) / (f2 - f1)\<close>. In particular the edge from the
  origin to \<open>(1, 0, 0)\<close> with values \<open>-1\<close> and \<open>1\<close> is cut at \<open>(0.5, 0, 0)\<close>, and two equal
  values \<open>5\<close> and \<open>5\<close> give the exact midpoint of any two points.
\<close>

theorem interpolate_3d_midpoint_or_crossing:
  "interpolate_3d p1 p2 f1 f2 =
     (if \<bar>f2 - f1\<bar> < 1 / 10 ^ 9
      then Point3D ((px p1 + px p2) / 2) ((py p1 + py p2) / 2) ((pz p1 + pz p2) / 2)
      else Point3D (px p1 + (0 - f1) / (f2 - f1) * (px p2 - px p1))
                   (py p1 + (0 - f1) / (f2 - f1) * (py p2 - py p1))
                   (pz p1 + (0 - f1) / (f2 - f1) * (pz p2 - pz p1)))
   \<and> interpolate_3d (Point3D 0 0 0) (Point3D 1 0 0) (- 1) 1 = Point3D (1 / 2) 0 0
   \<and> interpolate_3d q1 q2 5 5
       = Point3D ((px q1 + px q2) / 2) ((py q1 + py q2) / 2) ((pz q1 + pz q2) / 2)"
  by (simp add: interpolate_3d_def Let_def)

section \<open>The mesh file\<close>

lemma length_vertex_lines: "length (vertex_lines triangles) = 3 * length triangles"
  by (induction triangles) (simp_all add: vertex_lines_def)

lemma face_lines_nth:
  "i < length triangles \<Longrightarrow>
   face_lines triangles ! i = Face (6 * int i + 1) (6 * int i + 2) (6 * int i + 3)"
  by (simp add: face_lines_def Let_def)

text \<open>
  C9. \<open>draw_surface\<close> is claimed to write three vertex lines per triangle and then one
  face line per triangle that names the triangle's own vertices, \<open>3i+1\<close>, \<open>3i+2\<close>, \<open>3i+3\<close>
  for triangle \<open>i\<close>. The source computes the first index of face \<open>i\<close> as \<open>6i+1\<close>. For the
  plane \<open>x = 1/2\<close> in the unit cube, taken as a single cell, the two triangles give six
  vertex lines, and the second face line names the vertices 7, 8 and 9.
\<close>

theorem draw_surface_second_face_past_the_vertices:
  "draw_surface (\<lambda>g :: nat. (0, g)) 1 1 (\<lambda>x y z. x - 1 / 2) True 0 0 0 1 1 1 2 0 =
     Some (Inr ([Title, Count 2, Blank,
                 Vertex (1 / 2) 0 0, Vertex (1 / 2) 0 1, Vertex (1 / 2) 1 0,
                 Vertex (1 / 2) 0 1, Vertex (1 / 2) 1 1, Vertex (1 / 2) 1 0,
                 Face 1 2 3, Face 7 8 9], 0))"
  by code_simp

section \<open>The lookup tables and the triangle loop\<close>

lemma length_edgeTable: "length edgeTable = 256"
  by (simp add: edgeTable_def)

lemma length_triTable: "length triTable = 256"
  by (simp add: triTable_def)

lemma edgeTable_first: "edgeTable ! 0 = 0"
  by code_simp

lemma edgeTable_last: "edgeTable ! 255 = 0"
  by code_simp

lemma at_index_map:
  "at_index (map h xs) i = (case at_index xs i of Inl err \<Rightarrow> Inl err | Inr x \<Rightarrow> Inr (h x))"
  by (simp add: at_index_def)

text \<open>The loop does not look at the slots it reads: it commutes with any map over them.\<close>

lemma tri_loop_map:
  "tri_loop (map h slots) row =
     (case tri_loop slots row of
        Inl err \<Rightarrow> Inl err
      | Inr ts \<Rightarrow> Inr (map (\<lambda>(u, v, w). (h u, h v, h w)) ts))"
proof (induction slots row rule: tri_loop.induct)
  case (1 slots)
  show ?case by simp
next
  case (2 slots a rest)
  show ?case
  proof (cases "a = - 1")
    case True
    then show ?thesis by simp
  next
    case False
    show ?thesis
    proof (cases rest)
      case Nil
      with False show ?thesis by simp
    next
      case (Cons b rest1)
      show ?thesis
      proof (cases rest1)
        case Nil
        with False Cons show ?thesis by simp
      next
        case (Cons c rest')
        with False \<open>rest = b # rest1\<close> 2 show ?thesis
          by (auto simp: at_index_map split: sum.splits fault.splits)
      qed
    qed
  qed
qed

lemma edge_points_flags:
  "map (\<lambda>s. s \<noteq> None) (edge_points emask vertices values) = map (bit emask) [0..<12]"
  by (simp add: edge_points_def bit_iff_and_push_bit_not_eq_0 upt_rec)



text \<open>
  Both tables, checked row by row: run on the flags of the edge mask, the loop ends at
  the sentinel without leaving the row or the twelve slots, and every flag it reads is
  set.
\<close>

lemma table_reads_flagged:
  "list_all (\<lambda>c. case tri_loop (map (bit (edgeTable ! c)) [0..<12]) (triTable ! c) of
                    Inl err \<Rightarrow> False
                  | Inr ts \<Rightarrow> list_all (\<lambda>(u, v, w). u \<and> v \<and> w) ts) [0..<256]"
  by code_simp


lemma tri_loop_reads_computed:
  assumes "c < 256"
  shows "\<exists>ts. tri_loop (edge_points (edgeTable ! c) vertices values) (triTable ! c) = Inr ts
              \<and> (\<forall>(u, v, w) \<in> set ts. u \<noteq> None \<and> v \<noteq> None \<and> w \<noteq> None)"
proof -
  let ?eps = "edge_points (edgeTable ! c) vertices values"
  from assms table_reads_flagged
  have flags: "case tri_loop (map (bit (edgeTable ! c)) [0..<12]) (triTable ! c) of
                 Inl err \<Rightarrow> False
               | Inr ts \<Rightarrow> list_all (\<lambda>(u, v, w). u \<and> v \<and> w) ts"
    by (simp add: list_all_iff del: upt_Suc)
  have "tri_loop (map (bit (edgeTable ! c)) [0..<12]) (triTable ! c)
          = tri_loop (map (\<lambda>s. s \<noteq> None) ?eps) (triTable ! c)"
    by (simp only: edge_points_flags)
  also have "\<dots> = (case tri_loop ?eps (triTable ! c) of
                      Inl err \<Rightarrow> Inl err
                    | Inr ts \<Rightarrow> Inr (map (\<lambda>(u, v, w). (u \<noteq> None, v \<noteq> None, w \<noteq> None)) ts))"
    by (rule tri_loop_map)
  finally have eq: "tri_loop (map (bit (edgeTable ! c)) [0..<12]) (triTable ! c)
          = (case tri_loop ?eps (triTable ! c) of
               Inl err \<Rightarrow> Inl err
             | Inr ts \<Rightarrow> Inr (map (\<lambda>(u, v, w). (u \<noteq> None, v \<noteq> None, w \<noteq> None)) ts))" .
  show ?thesis
  proof (cases "tri_loop ?eps (triTable ! c)")
    case (Inl err)
    with eq flags show ?thesis by simp
  next
    case (Inr ts)
    with eq flags have "list_all (\<lambda>(u, v, w). u \<and> v \<and> w)
                          (map (\<lambda>(u, v, w). (u \<noteq> None, v \<noteq> None, w \<noteq> None)) ts)"
      by simp
    then have "\<forall>(u, v, w) \<in> set ts. u \<noteq> None \<and> v \<noteq> None \<and> w \<noteq> None"
      by (auto simp: list_all_iff)
    with Inr show ?thesis by blast
  qed
qed

section \<open>The configuration index\<close>

lemma config_step_range:
  fixes c :: int
  assumes "0 \<le> c" "c < 2 ^ n"
  shows "0 \<le> (if b then c OR push_bit n 1 else c) \<and> (if b then c OR push_bit n 1 else c) < 2 ^ Suc n"
proof -
  have "c < 2 ^ Suc n" using assms by simp
  moreover have "(2::int) ^ n < 2 ^ Suc n" by simp
  ultimately have "c OR 2 ^ n < 2 ^ Suc n"
    by (rule OR_upper [OF assms(1)])
  with assms show ?thesis by (simp add: push_bit_eq_mult)
qed

lemma config_fold_range:
  "0 \<le> foldl (\<lambda>config i. if values ! i < 0 then config OR push_bit i 1 else config) (0::int) [0..<n]
   \<and> foldl (\<lambda>config i. if values ! i < (0::real) then config OR push_bit i 1 else config) (0::int) [0..<n] < 2 ^ n"
proof (induction n)
  case 0
  show ?case by simp
next
  case (Suc n)
  then show ?case
    using config_step_range [of _ n "values ! n < 0"] by simp
qed

lemma cube_config_range: "0 \<le> cube_config values \<and> cube_config values < 256"
  using config_fold_range [of "values" 8] by (simp add: cube_config_def del: upt_Suc)

lemma first_eight:
  assumes "\<forall>i<8. P (values ! i)"
  shows "P (values ! 0)" "P (values ! 1)" "P (values ! 2)" "P (values ! 3)"
    "P (values ! 4)" "P (values ! 5)" "P (values ! 6)" "P (values ! 7)"
  using assms by simp_all

lemma cube_config_unfold:
  "cube_config values =
     (let c0 = (if values ! 0 < 0 then 0 OR push_bit 0 1 else 0);
          c1 = (if values ! 1 < 0 then c0 OR push_bit 1 1 else c0);
          c2 = (if values ! 2 < 0 then c1 OR push_bit 2 1 else c1);
          c3 = (if values ! 3 < 0 then c2 OR push_bit 3 1 else c2);
          c4 = (if values ! 4 < 0 then c3 OR push_bit 4 1 else c3);
          c5 = (if values ! 5 < 0 then c4 OR push_bit 5 1 else c4);
          c6 = (if values ! 6 < 0 then c5 OR push_bit 6 1 else c5)
      in if values ! 7 < 0 then c6 OR push_bit 7 1 else c6)"
proof -
  have "[0..<8] = [0, 1, 2, 3, 4, 5, 6, 7]"
    by (simp add: upt_rec)
  then show ?thesis
    by (simp add: cube_config_def Let_def)
qed

lemma cube_config_all_nonneg:
  assumes "\<forall>i<8. 0 \<le> values ! i"
  shows "cube_config values = 0"
  using first_eight [of "\<lambda>v. 0 \<le> v", OF assms]
  by (simp add: cube_config_unfold)

lemma cube_config_all_neg:
  assumes "\<forall>i<8. values ! i < 0"
  shows "cube_config values = 255"
  using first_eight [of "\<lambda>v. v < 0", OF assms]
  by (simp add: cube_config_unfold)

section \<open>The cell extractor never reads outside its arrays\<close>

lemma marching_cubes_total: "\<exists>ts. marching_cubes start endp f = Inr ts"
proof -
  let ?vs = "cube_vertices start endp"
  let ?vals = "cube_values f ?vs"
  let ?c = "cube_config ?vals"
  have range: "0 \<le> ?c" "nat ?c < 256"
    using cube_config_range [of ?vals] by (simp_all add: nat_less_iff)
  then have e: "at_index edgeTable ?c = Inr (edgeTable ! nat ?c)"
    and t: "at_index triTable ?c = Inr (triTable ! nat ?c)"
    by (simp_all add: at_index_def length_edgeTable length_triTable)
  from tri_loop_reads_computed [OF range(2)]
  obtain ts where "tri_loop (edge_points (edgeTable ! nat ?c) ?vs ?vals) (triTable ! nat ?c) = Inr ts"
    by blast
  with e t show ?thesis
    by (simp add: marching_cubes_def Let_def)
qed

lemma cube_vertices_in_box: "\<forall>v \<in> set (cube_vertices start endp). in_box start endp v"
  by (simp add: cube_vertices_def in_box_def)

lemma marching_cubes_nonneg:
  assumes "\<forall>p. in_box start endp p \<longrightarrow> 0 \<le> field_at f p"
  shows "cube_config (cube_values f (cube_vertices start endp)) = 0"
    and "marching_cubes start endp f = Inr []"
proof -
  have "\<forall>v \<in> set (cube_vertices start endp). 0 \<le> field_at f v"
    using assms cube_vertices_in_box by blast
  then have "\<forall>i<8. 0 \<le> cube_values f (cube_vertices start endp) ! i"
    by (simp add: cube_values_def cube_vertices_def field_at_def nth_Cons split: nat.splits)
  then show c: "cube_config (cube_values f (cube_vertices start endp)) = 0"
    by (rule cube_config_all_nonneg)
  show "marching_cubes start endp f = Inr []"
    by (simp add: marching_cubes_def Let_def c at_index_def length_edgeTable edgeTable_first)
qed

lemma marching_cubes_neg:
  assumes "\<forall>p. in_box start endp p \<longrightarrow> field_at f p < 0"
  shows "cube_config (cube_values f (cube_vertices start endp)) = 255"
    and "marching_cubes start endp f = Inr []"
proof -
  have "\<forall>v \<in> set (cube_vertices start endp). field_at f v < 0"
    using assms cube_vertices_in_box by blast
  then have "\<forall>i<8. cube_values f (cube_vertices start endp) ! i < 0"
    by (simp add: cube_values_def cube_vertices_def field_at_def nth_Cons split: nat.splits)
  then show c: "cube_config (cube_values f (cube_vertices start endp)) = 255"
    by (rule cube_config_all_neg)
  show "marching_cubes start endp f = Inr []"
    by (simp add: marching_cubes_def Let_def c at_index_def length_edgeTable edgeTable_last)
qed

section \<open>Consistency of the two tables\<close>



section \<open>Sampling\<close>

lemma convex_between:
  fixes a b t :: real
  assumes "0 \<le> t" "t \<le> 1"
  shows "min a b \<le> a + t * (b - a)" and "a + t * (b - a) \<le> max a b"
proof -
  have up: "t * d \<le> d" if "0 \<le> d" for d :: real
    using mult_right_mono [OF assms(2) that] by simp
  have nonneg: "0 \<le> t * d" if "0 \<le> d" for d :: real
    using assms(1) that by simp
  show "min a b \<le> a + t * (b - a)"
  proof (cases "a \<le> b")
    case True
    with nonneg [of "b - a"] show ?thesis by simp
  next
    case False
    with up [of "a - b"] show ?thesis by (simp add: algebra_simps)
  qed
  show "a + t * (b - a) \<le> max a b"
  proof (cases "a \<le> b")
    case True
    with up [of "b - a"] show ?thesis by (simp add: algebra_simps)
  next
    case False
    with nonneg [of "a - b"] show ?thesis by (simp add: algebra_simps)
  qed
qed

lemma scaled_draw_between:
  fixes a b :: real
  assumes "0 \<le> r" "r \<le> M" "0 < M"
  shows "min a b \<le> a + real_of_int r / (real_of_int M / (b - a))"
    and "a + real_of_int r / (real_of_int M / (b - a)) \<le> max a b"
proof -
  have t: "0 \<le> real_of_int r / real_of_int M" "real_of_int r / real_of_int M \<le> 1"
    using assms by simp_all
  have eq: "a + real_of_int r / (real_of_int M / (b - a))
              = a + real_of_int r / real_of_int M * (b - a)"
    by simp
  show "min a b \<le> a + real_of_int r / (real_of_int M / (b - a))"
    unfolding eq using t by (rule convex_between)
  show "a + real_of_int r / (real_of_int M / (b - a)) \<le> max a b"
    unfolding eq using t by (rule convex_between)
qed

lemma get_random_point_3d_draws:
  "get_random_point_3d rand RAND_MAX xmin ymin zmin xmax ymax zmax g =
     (Point3D (xmin + real_of_int (draw rand g 0) / (real_of_int RAND_MAX / (xmax - xmin)))
              (ymin + real_of_int (draw rand g 1) / (real_of_int RAND_MAX / (ymax - ymin)))
              (zmin + real_of_int (draw rand g 2) / (real_of_int RAND_MAX / (zmax - zmin))),
      ((\<lambda>h. snd (rand h)) ^^ 3) g)"
  by (simp add: get_random_point_3d_def draw_def Let_def split_beta numeral_3_eq_3 numeral_2_eq_2)

lemma draw_in_range:
  assumes "rand_in_range rand RAND_MAX"
  shows "0 \<le> draw rand g k" "draw rand g k \<le> RAND_MAX" "0 < RAND_MAX"
  using assms by (simp_all add: rand_in_range_def draw_def)

lemma get_random_point_3d_in_box:
  assumes "rand_in_range rand RAND_MAX"
  shows "in_box (Point3D xmin ymin zmin) (Point3D xmax ymax zmax)
           (fst (get_random_point_3d rand RAND_MAX xmin ymin zmin xmax ymax zmax g))"
  unfolding get_random_point_3d_draws in_box_def fst_conv Point3D.sel
  by (intro conjI scaled_draw_between draw_in_range [OF assms])

lemma draw_shift: "draw rand (((\<lambda>h. snd (rand h)) ^^ m) g) k = draw rand g (k + m)"
  by (simp add: draw_def funpow_add)

lemma random_samples_length: "length (fst (random_samples rand RAND_MAX start endp n g)) = n"
  by (induction n arbitrary: g) (simp_all add: split_beta Let_def)

lemma random_samples_state:
  "snd (random_samples rand RAND_MAX start endp n g) = ((\<lambda>h. snd (rand h)) ^^ (3 * n)) g"
proof (induction n arbitrary: g)
  case 0
  show ?case by simp
next
  case (Suc n)
  have "3 * Suc n = 3 * n + 3" by simp
  then show ?case
    by (simp add: split_beta Let_def Suc get_random_point_3d_draws funpow_add del: mult_Suc_right)
qed

lemma random_samples_nth:
  assumes "i < n"
  shows "fst (random_samples rand RAND_MAX start endp n g) ! i =
     Point3D (px start + real_of_int (draw rand g (3 * i)) / (real_of_int RAND_MAX / (px endp - px start)))
             (py start + real_of_int (draw rand g (3 * i + 1)) / (real_of_int RAND_MAX / (py endp - py start)))
             (pz start + real_of_int (draw rand g (3 * i + 2)) / (real_of_int RAND_MAX / (pz endp - pz start)))"
  using assms
proof (induction n arbitrary: g i)
  case 0
  then show ?case by simp
next
  case (Suc n)
  let ?g3 = "((\<lambda>h. snd (rand h)) ^^ 3) g"
  have unfold: "fst (random_samples rand RAND_MAX start endp (Suc n) g) =
      fst (get_random_point_3d rand RAND_MAX (px start) (py start) (pz start)
             (px endp) (py endp) (pz endp) g)
      # fst (random_samples rand RAND_MAX start endp n ?g3)"
    by (simp add: split_beta Let_def get_random_point_3d_draws)
  show ?case
  proof (cases i)
    case 0
    show ?thesis
      unfolding unfold 0 by (simp add: get_random_point_3d_draws numeral_2_eq_2)
  next
    case (Suc j)
    with Suc.prems have "j < n" by simp
    show ?thesis
      unfolding unfold Suc nth_Cons_Suc Suc.IH [OF \<open>j < n\<close>] draw_shift
      by (simp add: ac_simps)
  qed
qed

lemma random_samples_in_box:
  assumes "rand_in_range rand RAND_MAX"
  shows "\<forall>p \<in> set (fst (random_samples rand RAND_MAX start endp n g)). in_box start endp p"
proof (induction n arbitrary: g)
  case 0
  show ?case by simp
next
  case (Suc n)
  have "in_box (Point3D (px start) (py start) (pz start)) (Point3D (px endp) (py endp) (pz endp))
          (fst (get_random_point_3d rand RAND_MAX (px start) (py start) (pz start)
                  (px endp) (py endp) (pz endp) g))"
    using assms by (rule get_random_point_3d_in_box)
  then show ?case
    using Suc by (simp add: split_beta Let_def)
qed

section \<open>The sign scan\<close>

lemma sign_scan_found_iff:
  assumes "\<not> (has_positive \<and> has_negative)"
  shows "fst (sign_scan f ps has_positive has_negative) \<longleftrightarrow>
           (has_positive \<or> (\<exists>p \<in> set ps. 0 \<le> field_at f p))
         \<and> (has_negative \<or> (\<exists>p \<in> set ps. field_at f p < 0))"
  using assms
proof (induction ps arbitrary: has_positive has_negative)
  case Nil
  then show ?case by simp
next
  case (Cons p ps)
  show ?case
  proof (cases "0 \<le> f (px p) (py p) (pz p)")
    case True
    show ?thesis
    proof (cases has_negative)
      case True
      with \<open>0 \<le> f (px p) (py p) (pz p)\<close> show ?thesis
        by (auto simp: field_at_def)
    next
      case False
      with True Cons.IH [of True False] show ?thesis
        by (auto simp: field_at_def split_beta)
    qed
  next
    case False
    show ?thesis
    proof (cases has_positive)
      case True
      with False show ?thesis
        by (auto simp: field_at_def)
    next
      case hp: False
      with False Cons.IH [of False True] show ?thesis
        by (auto simp: field_at_def split_beta)
    qed
  qed
qed

lemma sign_scan_count:
  assumes "\<not> (has_positive \<and> has_negative)"
  shows "snd (sign_scan f ps has_positive has_negative) \<le> length ps
    \<and> (\<not> fst (sign_scan f ps has_positive has_negative) \<longrightarrow>
         snd (sign_scan f ps has_positive has_negative) = length ps)
    \<and> (fst (sign_scan f ps has_positive has_negative) \<longrightarrow>
         0 < snd (sign_scan f ps has_positive has_negative)
       \<and> fst (sign_scan f (take (snd (sign_scan f ps has_positive has_negative)) ps)
                has_positive has_negative)
       \<and> \<not> fst (sign_scan f (take (snd (sign_scan f ps has_positive has_negative) - 1) ps)
                  has_positive has_negative))"
  using assms
proof (induction ps arbitrary: has_positive has_negative)
  case Nil
  then show ?case by simp
next
  case (Cons p ps)
  let ?v = "f (px p) (py p) (pz p)"
  let ?hp = "if 0 \<le> ?v then True else has_positive"
  let ?hn = "if 0 \<le> ?v then has_negative else True"
  show ?case
  proof (cases "?hp \<and> ?hn")
    case True
    then show ?thesis
      by (auto simp: Let_def split: if_splits)
  next
    case False
    have step: "sign_scan f (p # qs) has_positive has_negative =
                  (fst (sign_scan f qs ?hp ?hn), Suc (snd (sign_scan f qs ?hp ?hn)))" for qs
      using False by (auto simp: Let_def split_beta split: if_splits)
    note ih = Cons.IH [OF False]
    show ?thesis
    proof (cases "fst (sign_scan f ps ?hp ?hn)")
      case nf: False
      with ih step [of ps] show ?thesis by simp
    next
      case True
      with ih have pos: "0 < snd (sign_scan f ps ?hp ?hn)"
        and upto: "fst (sign_scan f (take (snd (sign_scan f ps ?hp ?hn)) ps) ?hp ?hn)"
        and before: "\<not> fst (sign_scan f (take (snd (sign_scan f ps ?hp ?hn) - 1) ps) ?hp ?hn)"
        and le: "snd (sign_scan f ps ?hp ?hn) \<le> length ps"
        by simp_all
      from pos obtain k where k: "snd (sign_scan f ps ?hp ?hn) = Suc k"
        by (cases "snd (sign_scan f ps ?hp ?hn)") simp_all
      show ?thesis
        using k True le upto before by (simp add: step del: sign_scan.simps)
    qed
  qed
qed

section \<open>What the probe returns\<close>

lemma cube_contains_surface_found_iff:
  "fst (cube_contains_surface rand RAND_MAX f start endp g) \<longleftrightarrow>
     (\<exists>p \<in> set (fst (random_samples rand RAND_MAX start endp 10000 g)). 0 \<le> field_at f p)
   \<and> (\<exists>p \<in> set (fst (random_samples rand RAND_MAX start endp 10000 g)). field_at f p < 0)"
  using sign_scan_found_iff [of False False f "fst (random_samples rand RAND_MAX start endp 10000 g)"]
  by (simp add: cube_contains_surface_def split_beta)

lemma cube_contains_surface_state:
  "snd (cube_contains_surface rand RAND_MAX f start endp g) = ((\<lambda>h. snd (rand h)) ^^ 30000) g"
  by (simp add: cube_contains_surface_def split_beta random_samples_state)

lemma cube_contains_surface_one_sign:
  assumes "rand_in_range rand RAND_MAX"
    and "(\<forall>p. in_box start endp p \<longrightarrow> 0 \<le> field_at f p)
       \<or> (\<forall>p. in_box start endp p \<longrightarrow> field_at f p < 0)"
  shows "\<not> fst (cube_contains_surface rand RAND_MAX f start endp g)"
proof
  assume "fst (cube_contains_surface rand RAND_MAX f start endp g)"
  then obtain p q
    where p: "p \<in> set (fst (random_samples rand RAND_MAX start endp 10000 g))" "0 \<le> field_at f p"
      and q: "q \<in> set (fst (random_samples rand RAND_MAX start endp 10000 g))" "field_at f q < 0"
    unfolding cube_contains_surface_found_iff by blast
  from p(1) q(1) have "in_box start endp p" "in_box start endp q"
    using random_samples_in_box [OF assms(1)] by blast+
  with assms(2) p(2) q(2) show False
    by (auto simp: not_less [symmetric])
qed

text \<open>
  C5. The probe draws exactly 10000 sample points, that is 30000 numbers from the
  generator, whatever the field does. Sample \<open>i\<close> has the coordinates
  \<open>min + r / (RAND_MAX / (max - min))\<close> on each axis, where \<open>r\<close> is a draw of its own:
  draws \<open>3i\<close>, \<open>3i+1\<close> and \<open>3i+2\<close> for x, y and z; with a generator that keeps to
  \<open>0..RAND_MAX\<close> every sample lies in the box. The probe returns true exactly when one
  sample has a field value \<open>\<ge> 0\<close> and one has a field value \<open>< 0\<close>. When it returns true
  it has evaluated the field at \<open>k\<close> samples, where the first \<open>k\<close> samples show both signs
  and the first \<open>k - 1\<close> do not; when it returns false it has evaluated all 10000.
  That the numbers are uniform and independent is a property of \<open>rand\<close>, not of this
  program: each coordinate is an affine image of one draw.
\<close>

theorem cube_contains_surface_samples_and_signs:
  "let samples = fst (random_samples rand RAND_MAX start endp 10000 g);
       found = fst (cube_contains_surface rand RAND_MAX f start endp g);
       evaluated = snd (sign_scan f samples False False)
   in length samples = 10000
    \<and> snd (cube_contains_surface rand RAND_MAX f start endp g) = ((\<lambda>h. snd (rand h)) ^^ 30000) g
    \<and> (\<forall>i<10000. samples ! i =
          Point3D (px start + real_of_int (draw rand g (3 * i)) / (real_of_int RAND_MAX / (px endp - px start)))
                  (py start + real_of_int (draw rand g (3 * i + 1)) / (real_of_int RAND_MAX / (py endp - py start)))
                  (pz start + real_of_int (draw rand g (3 * i + 2)) / (real_of_int RAND_MAX / (pz endp - pz start))))
    \<and> (rand_in_range rand RAND_MAX \<longrightarrow> (\<forall>p \<in> set samples. in_box start endp p))
    \<and> (found \<longleftrightarrow> (\<exists>p \<in> set samples. 0 \<le> field_at f p) \<and> (\<exists>p \<in> set samples. field_at f p < 0))
    \<and> fst (sign_scan f samples False False) = found
    \<and> (found \<longrightarrow> 0 < evaluated \<and> evaluated \<le> 10000
                \<and> fst (sign_scan f (take evaluated samples) False False)
                \<and> \<not> fst (sign_scan f (take (evaluated - 1) samples) False False))
    \<and> (\<not> found \<longrightarrow> evaluated = 10000)"
proof -
  let ?ps = "fst (random_samples rand RAND_MAX start endp 10000 g)"
  let ?found = "fst (cube_contains_surface rand RAND_MAX f start endp g)"
  let ?k = "snd (sign_scan f ?ps False False)"
  have len: "length ?ps = 10000"
    by (rule random_samples_length)
  have state: "snd (cube_contains_surface rand RAND_MAX f start endp g) = ((\<lambda>h. snd (rand h)) ^^ 30000) g"
    by (rule cube_contains_surface_state)
  have nth: "\<forall>i<10000. ?ps ! i =
          Point3D (px start + real_of_int (draw rand g (3 * i)) / (real_of_int RAND_MAX / (px endp - px start)))
                  (py start + real_of_int (draw rand g (3 * i + 1)) / (real_of_int RAND_MAX / (py endp - py start)))
                  (pz start + real_of_int (draw rand g (3 * i + 2)) / (real_of_int RAND_MAX / (pz endp - pz start)))"
    by (intro allI impI random_samples_nth)
  have box: "rand_in_range rand RAND_MAX \<longrightarrow> (\<forall>p \<in> set ?ps. in_box start endp p)"
    by (intro impI random_samples_in_box)
  have iff: "?found \<longleftrightarrow> (\<exists>p \<in> set ?ps. 0 \<le> field_at f p) \<and> (\<exists>p \<in> set ?ps. field_at f p < 0)"
    by (rule cube_contains_surface_found_iff)
  have found: "fst (sign_scan f ?ps False False) = ?found"
    by (simp add: cube_contains_surface_def split_beta)
  have "?k \<le> length ?ps
    \<and> (\<not> fst (sign_scan f ?ps False False) \<longrightarrow> ?k = length ?ps)
    \<and> (fst (sign_scan f ?ps False False) \<longrightarrow>
         0 < ?k
       \<and> fst (sign_scan f (take ?k ?ps) False False)
       \<and> \<not> fst (sign_scan f (take (?k - 1) ?ps) False False))"
    by (rule sign_scan_count) simp
  then have count: "?k \<le> 10000 \<and> (\<not> ?found \<longrightarrow> ?k = 10000)
    \<and> (?found \<longrightarrow> 0 < ?k \<and> fst (sign_scan f (take ?k ?ps) False False)
                  \<and> \<not> fst (sign_scan f (take (?k - 1) ?ps) False False))"
    unfolding len found .
  from count have early: "?found \<longrightarrow> 0 < ?k \<and> ?k \<le> 10000
                \<and> fst (sign_scan f (take ?k ?ps) False False)
                \<and> \<not> fst (sign_scan f (take (?k - 1) ?ps) False False)"
    by blast
  from count have full: "\<not> ?found \<longrightarrow> ?k = 10000"
    by blast
  show ?thesis
    unfolding Let_def by (intro conjI len state nth box iff found early full)
qed

lemma cyclic_rand_funpow: "((\<lambda>h. snd (cyclic_rand h)) ^^ k) g = g + k"
  by (induction k) (simp_all add: cyclic_rand_def)

lemma cyclic_rand_draw: "draw cyclic_rand g k = int ((g + k) mod 7)"
  by (simp add: draw_def cyclic_rand_funpow cyclic_rand_def add.commute)

lemma cyclic_rand_in_range: "rand_in_range cyclic_rand 6"
proof -
  have "g mod 7 \<le> 6" for g :: nat
    using mod_less_divisor [of 7 g] by simp
  then show ?thesis
    by (simp add: rand_in_range_def cyclic_rand_def)
qed

theorem cube_contains_surface_samples_and_signs_witness:
  "rand_in_range cyclic_rand 6
   \<and> fst (cube_contains_surface cyclic_rand 6 (\<lambda>x y z. x - 1 / 2) (Point3D 0 0 0) (Point3D 1 1 1) 0)
   \<and> snd (cube_contains_surface cyclic_rand 6 (\<lambda>x y z. x - 1 / 2) (Point3D 0 0 0) (Point3D 1 1 1) 0) = 30000
   \<and> in_box (Point3D 0 0 0) (Point3D 1 1 1)
       (fst (random_samples cyclic_rand 6 (Point3D 0 0 0) (Point3D 1 1 1) 10000 0) ! 1)"
proof -
  let ?f = "\<lambda>x y z :: real. x - 1 / 2"
  let ?ps = "fst (random_samples cyclic_rand 6 (Point3D 0 0 0) (Point3D 1 1 1) 10000 0)"
  note spec = cube_contains_surface_samples_and_signs
    [of cyclic_rand 6 "Point3D 0 0 0" "Point3D 1 1 1" 0 ?f, unfolded Let_def]
  from spec have len: "length ?ps = 10000" by blast
  from spec have nth: "\<forall>i<10000. ?ps ! i =
      Point3D (px (Point3D 0 0 0) + real_of_int (draw cyclic_rand 0 (3 * i)) / (real_of_int 6 / (px (Point3D 1 1 1) - px (Point3D 0 0 0))))
              (py (Point3D 0 0 0) + real_of_int (draw cyclic_rand 0 (3 * i + 1)) / (real_of_int 6 / (py (Point3D 1 1 1) - py (Point3D 0 0 0))))
              (pz (Point3D 0 0 0) + real_of_int (draw cyclic_rand 0 (3 * i + 2)) / (real_of_int 6 / (pz (Point3D 1 1 1) - pz (Point3D 0 0 0))))"
    by blast
  from nth have p0: "?ps ! 0 = Point3D 0 (1 / 6) (1 / 3)"
    by (simp add: cyclic_rand_draw)
  from nth have p1: "?ps ! 1 = Point3D (1 / 2) (2 / 3) (5 / 6)"
    by (simp add: cyclic_rand_draw)
  have mem: "?ps ! 0 \<in> set ?ps" "?ps ! 1 \<in> set ?ps"
    using len by (simp_all only: nth_mem)
  have neg: "field_at ?f (?ps ! 0) < 0" and pos: "0 \<le> field_at ?f (?ps ! 1)"
    by (simp_all only: p0 p1) (simp_all add: field_at_def)
  from spec have "fst (cube_contains_surface cyclic_rand 6 ?f (Point3D 0 0 0) (Point3D 1 1 1) 0) \<longleftrightarrow>
      (\<exists>p \<in> set ?ps. 0 \<le> field_at ?f p) \<and> (\<exists>p \<in> set ?ps. field_at ?f p < 0)"
    by blast
  with mem neg pos have found: "fst (cube_contains_surface cyclic_rand 6 ?f (Point3D 0 0 0) (Point3D 1 1 1) 0)"
    by blast
  from spec have "snd (cube_contains_surface cyclic_rand 6 ?f (Point3D 0 0 0) (Point3D 1 1 1) 0)
      = ((\<lambda>h. snd (cyclic_rand h)) ^^ 30000) 0"
    by blast
  then have state: "snd (cube_contains_surface cyclic_rand 6 ?f (Point3D 0 0 0) (Point3D 1 1 1) 0) = 30000"
    by (simp add: cyclic_rand_funpow)
  from spec cyclic_rand_in_range mem(2)
  have "in_box (Point3D 0 0 0) (Point3D 1 1 1) (?ps ! 1)"
    by blast
  with cyclic_rand_in_range found state show ?thesis
    by blast
qed

section \<open>The octree driver: leaves and pruned boxes\<close>

lemma surface_to_triangles_leaf:
  assumes "px endp - px start < precision \<or> py endp - py start < precision
           \<or> pz endp - pz start < precision"
  shows "surface_to_triangles rand RAND_MAX (Suc depth) f start endp precision g =
           (case marching_cubes start endp f of
              Inl err \<Rightarrow> Some (Inl err)
            | Inr ts \<Rightarrow> Some (Inr (ts, g)))"
  using assms by (simp add: surface_to_triangles.simps)

lemma surface_to_triangles_pruned:
  assumes "\<not> (px endp - px start < precision \<or> py endp - py start < precision
              \<or> pz endp - pz start < precision)"
    and "\<not> fst (cube_contains_surface rand RAND_MAX f start endp g)"
  shows "surface_to_triangles rand RAND_MAX (Suc depth) f start endp precision g =
           Some (Inr ([], snd (cube_contains_surface rand RAND_MAX f start endp g)))"
  using assms by (simp add: surface_to_triangles.simps split_beta)

text \<open>
  C10. For a positive precision and a box whose end is not beyond its start on some
  axis, \<open>surface_to_triangles\<close> returns at once: for every depth budget, also the
  smallest, the result is the extraction of that one box by \<open>marching_cubes\<close>, and the
  generator is in the state it was in, so that neither the probe nor a recursive call
  has run.
\<close>

theorem surface_to_triangles_degenerate_box_is_leaf:
  assumes "0 < precision"
    and "px endp \<le> px start \<or> py endp \<le> py start \<or> pz endp \<le> pz start"
  shows "\<exists>ts. marching_cubes start endp f = Inr ts
            \<and> surface_to_triangles rand RAND_MAX (Suc depth) f start endp precision g
                = Some (Inr (ts, g))"
proof -
  from assms have leaf: "px endp - px start < precision \<or> py endp - py start < precision
           \<or> pz endp - pz start < precision"
    by linarith
  obtain ts where ts: "marching_cubes start endp f = Inr ts"
    using marching_cubes_total by blast
  have "surface_to_triangles rand RAND_MAX (Suc depth) f start endp precision g =
          (case marching_cubes start endp f of
             Inl err \<Rightarrow> Some (Inl err)
           | Inr ts \<Rightarrow> Some (Inr (ts, g)))"
    using leaf by (rule surface_to_triangles_leaf)
  with ts show ?thesis
    by simp
qed

theorem surface_to_triangles_degenerate_box_is_leaf_witness:
  "(0::real) < 1 / 2
   \<and> px (Point3D 0 1 1) \<le> px (Point3D 0 0 0)
   \<and> (\<exists>ts. marching_cubes (Point3D 0 0 0) (Point3D 0 1 1) (\<lambda>x y z. z - 1 / 2) = Inr ts
          \<and> surface_to_triangles cyclic_rand 6 (Suc 0) (\<lambda>x y z. z - 1 / 2)
               (Point3D 0 0 0) (Point3D 0 1 1) (1 / 2) 0 = Some (Inr (ts, 0)))"
proof -
  have h1: "(0::real) < 1 / 2" by simp
  have h2: "px (Point3D 0 1 1) \<le> px (Point3D 0 0 0)" by simp
  then have h2': "px (Point3D 0 1 1) \<le> px (Point3D 0 0 0) \<or> py (Point3D 0 1 1) \<le> py (Point3D 0 0 0)
      \<or> pz (Point3D 0 1 1) \<le> pz (Point3D 0 0 0)"
    by blast
  from surface_to_triangles_degenerate_box_is_leaf [OF h1 h2', of "\<lambda>x y z. z - 1 / 2" cyclic_rand 6 0 0]
  show ?thesis using h1 h2 by blast
qed

text \<open>
  C1. Let the generator keep to \<open>0..RAND_MAX\<close>, the precision be positive, and the field
  be non-negative at every point of the box, or negative at every point of the box. Then
  \<open>surface_to_triangles\<close> returns the empty list, for every depth budget. The probe does
  not report a sign change, the configuration index of the box is 0 (or 255), the entry
  of \<open>edgeTable\<close> there is zero, and \<open>marching_cubes\<close> returns no triangle.
\<close>

theorem surface_to_triangles_one_sign_empty:
  assumes "rand_in_range rand RAND_MAX"
    and "0 < precision"
    and "(\<forall>p. in_box start endp p \<longrightarrow> 0 \<le> field_at f p)
       \<or> (\<forall>p. in_box start endp p \<longrightarrow> field_at f p < 0)"
  shows "(\<exists>g'. surface_to_triangles rand RAND_MAX (Suc depth) f start endp precision g
                 = Some (Inr ([], g')))
       \<and> \<not> fst (cube_contains_surface rand RAND_MAX f start endp g)
       \<and> marching_cubes start endp f = Inr []
       \<and> (cube_config (cube_values f (cube_vertices start endp)) = 0
          \<or> cube_config (cube_values f (cube_vertices start endp)) = 255)
       \<and> edgeTable ! 0 = 0 \<and> edgeTable ! 255 = 0"
proof -
  have probe: "\<not> fst (cube_contains_surface rand RAND_MAX f start endp g)"
    using assms(1,3) by (rule cube_contains_surface_one_sign)
  have cell: "marching_cubes start endp f = Inr []"
    using assms(3) marching_cubes_nonneg(2) marching_cubes_neg(2) by blast
  have config: "cube_config (cube_values f (cube_vertices start endp)) = 0
          \<or> cube_config (cube_values f (cube_vertices start endp)) = 255"
    using assms(3) marching_cubes_nonneg(1) marching_cubes_neg(1) by blast
  have "\<exists>g'. surface_to_triangles rand RAND_MAX (Suc depth) f start endp precision g
                 = Some (Inr ([], g'))"
  proof (cases "px endp - px start < precision \<or> py endp - py start < precision
           \<or> pz endp - pz start < precision")
    case True
    have "surface_to_triangles rand RAND_MAX (Suc depth) f start endp precision g =
            (case marching_cubes start endp f of
               Inl err \<Rightarrow> Some (Inl err)
             | Inr ts \<Rightarrow> Some (Inr (ts, g)))"
      using True by (rule surface_to_triangles_leaf)
    with cell show ?thesis
      by simp
  next
    case False
    have "surface_to_triangles rand RAND_MAX (Suc depth) f start endp precision g =
            Some (Inr ([], snd (cube_contains_surface rand RAND_MAX f start endp g)))"
      using False probe by (rule surface_to_triangles_pruned)
    then show ?thesis
      by blast
  qed
  with probe cell config edgeTable_first edgeTable_last show ?thesis
    by blast
qed

theorem surface_to_triangles_one_sign_empty_witness:
  "rand_in_range cyclic_rand 6
   \<and> (0::real) < 1 / 4
   \<and> (\<exists>g'. surface_to_triangles cyclic_rand 6 (Suc 0) (\<lambda>x y z. 1)
              (Point3D 0 0 0) (Point3D 1 1 1) (1 / 4) 0 = Some (Inr ([], g')))
   \<and> (\<exists>g'. surface_to_triangles cyclic_rand 6 (Suc 0) (\<lambda>x y z. - 1)
              (Point3D 0 0 0) (Point3D 1 1 1) 2 0 = Some (Inr ([], g')))"
proof -
  have h2: "(0::real) < 1 / 4" "(0::real) < 2" by simp_all
  have pos: "(\<forall>p. in_box (Point3D 0 0 0) (Point3D 1 1 1) p \<longrightarrow> 0 \<le> field_at (\<lambda>x y z. 1) p)
       \<or> (\<forall>p. in_box (Point3D 0 0 0) (Point3D 1 1 1) p \<longrightarrow> field_at (\<lambda>x y z. 1) p < 0)"
    by (simp add: field_at_def)
  have neg: "(\<forall>p. in_box (Point3D 0 0 0) (Point3D 1 1 1) p \<longrightarrow> 0 \<le> field_at (\<lambda>x y z. - 1) p)
       \<or> (\<forall>p. in_box (Point3D 0 0 0) (Point3D 1 1 1) p \<longrightarrow> field_at (\<lambda>x y z. - 1) p < 0)"
    by (simp add: field_at_def)
  from surface_to_triangles_one_sign_empty [OF cyclic_rand_in_range h2(1) pos, of 0 0]
    surface_to_triangles_one_sign_empty [OF cyclic_rand_in_range h2(2) neg, of 0 0]
    cyclic_rand_in_range h2(1)
  show ?thesis by blast
qed

section \<open>The tasks of one node\<close>



section \<open>The eight octants\<close>





section \<open>The recursion returns\<close>


section \<open>Subdivision\<close>

lemma surface_to_triangles_subdivided:
  assumes "\<not> (px endp - px start < precision \<or> py endp - py start < precision
              \<or> pz endp - pz start < precision)"
    and "fst (cube_contains_surface rand RAND_MAX f start endp g)"
  shows "surface_to_triangles rand RAND_MAX (Suc depth) f start endp precision g =
           (case run_tasks (\<lambda>s e. surface_to_triangles rand RAND_MAX depth f s e precision)
                   (octants start endp) (snd (cube_contains_surface rand RAND_MAX f start endp g)) of
              None \<Rightarrow> None
            | Some (Inl err) \<Rightarrow> Some (Inl err)
            | Some (Inr (sub_results, g2)) \<Rightarrow> Some (Inr (concat sub_results, g2)))"
  using assms by (simp add: surface_to_triangles.simps split_beta)

lemma plane_probe_found:
  "fst (cube_contains_surface cyclic_rand 6 (\<lambda>x y z. x - 1 / 2) (Point3D 0 0 0) (Point3D 1 1 1) 0)"
proof -
  let ?f = "\<lambda>x y z :: real. x - 1 / 2"
  let ?ps = "fst (random_samples cyclic_rand 6 (Point3D 0 0 0) (Point3D 1 1 1) 10000 0)"
  have p0: "?ps ! 0 = Point3D 0 (1 / 6) (1 / 3)"
    by (simp add: random_samples_nth cyclic_rand_draw)
  have p1: "?ps ! 1 = Point3D (1 / 2) (2 / 3) (5 / 6)"
    by (simp add: random_samples_nth cyclic_rand_draw)
  have mem: "?ps ! 0 \<in> set ?ps" "?ps ! 1 \<in> set ?ps"
    by (simp_all add: random_samples_length)
  have "field_at ?f (?ps ! 0) < 0" and "0 \<le> field_at ?f (?ps ! 1)"
    by (simp_all only: p0 p1) (simp_all add: field_at_def)
  with mem show ?thesis
    unfolding cube_contains_surface_found_iff by blast
qed



section \<open>Termination\<close>



section \<open>The leaf test\<close>

lemma counting_funpow:
  "fst (((\<lambda>h. snd (counting rand h)) ^^ m) st) = fst st + m"
  by (induction m) (simp_all add: counting_def split_beta)

lemma cube_contains_surface_counts:
  "fst (snd (cube_contains_surface (counting rand) RAND_MAX f start endp st)) = fst st + 30000"
  by (simp only: cube_contains_surface_state counting_funpow)

lemma run_tasks_counter:
  assumes "\<And>s e st ts st'. task s e st = Some (Inr (ts, st')) \<Longrightarrow> fst st \<le> (fst st' :: nat)"
    and "run_tasks task boxes st = Some (Inr (sub_results, st'))"
  shows "fst st \<le> fst st'"
  using assms(2)
proof (induction boxes arbitrary: st sub_results)
  case Nil
  then show ?case by simp
next
  case (Cons box boxes)
  obtain s e where box: "box = (s, e)"
    by (cases box)
  from Cons.prems box obtain ts st1 where first: "task s e st = Some (Inr (ts, st1))"
    by (auto split: option.splits sum.splits)
  from Cons.prems box first obtain rest where "run_tasks task boxes st1 = Some (Inr (rest, st'))"
    by (auto split: option.splits sum.splits)
  then have "fst st1 \<le> fst st'"
    by (rule Cons.IH)
  moreover from first have "fst st \<le> fst st1"
    by (rule assms(1))
  ultimately show ?case
    by simp
qed

lemma surface_to_triangles_counter:
  assumes "surface_to_triangles (counting rand) RAND_MAX depth f start endp precision st
             = Some (Inr (ts, st'))"
  shows "fst st \<le> fst st'"
  using assms
proof (induction depth arbitrary: start endp st ts st')
  case 0
  then show ?case
    by (simp add: surface_to_triangles.simps)
next
  case (Suc depth)
  show ?case
  proof (cases "px endp - px start < precision \<or> py endp - py start < precision
           \<or> pz endp - pz start < precision")
    case True
    from Suc.prems surface_to_triangles_leaf [OF True, of "counting rand" RAND_MAX depth f st]
    have "st' = st"
      by (auto split: sum.splits)
    then show ?thesis by simp
  next
    case False
    let ?st1 = "snd (cube_contains_surface (counting rand) RAND_MAX f start endp st)"
    have probe: "fst ?st1 = fst st + 30000"
      by (rule cube_contains_surface_counts)
    show ?thesis
    proof (cases "fst (cube_contains_surface (counting rand) RAND_MAX f start endp st)")
      case nf: False
      from Suc.prems surface_to_triangles_pruned [OF False nf, of depth]
      have "st' = ?st1" by simp
      with probe show ?thesis by simp
    next
      case True
      from Suc.prems surface_to_triangles_subdivided [OF False True, of depth]
      obtain sub_results
        where "run_tasks (\<lambda>s e. surface_to_triangles (counting rand) RAND_MAX depth f s e precision)
                 (octants start endp) ?st1 = Some (Inr (sub_results, st'))"
        by (auto split: option.splits sum.splits)
      then have "fst ?st1 \<le> fst st'"
        using Suc.IH by (rule run_tasks_counter [rotated])
      with probe show ?thesis by simp
    qed
  qed
qed

lemma surface_to_triangles_counter_nonleaf:
  assumes "\<not> (px endp - px start < precision \<or> py endp - py start < precision
              \<or> pz endp - pz start < precision)"
    and "surface_to_triangles (counting rand) RAND_MAX depth f start endp precision st
             = Some (Inr (ts, st'))"
  shows "fst st + 30000 \<le> fst st'"
proof (cases depth)
  case 0
  with assms(2) show ?thesis
    by (simp add: surface_to_triangles.simps)
next
  case (Suc d)
  let ?st1 = "snd (cube_contains_surface (counting rand) RAND_MAX f start endp st)"
  have probe: "fst ?st1 = fst st + 30000"
    by (rule cube_contains_surface_counts)
  show ?thesis
  proof (cases "fst (cube_contains_surface (counting rand) RAND_MAX f start endp st)")
    case nf: False
    from assms(2) Suc surface_to_triangles_pruned [OF assms(1) nf, of d]
    have "st' = ?st1" by simp
    with probe show ?thesis by simp
  next
    case True
    from assms(2) Suc surface_to_triangles_subdivided [OF assms(1) True, of d]
    obtain sub_results
      where "run_tasks (\<lambda>s e. surface_to_triangles (counting rand) RAND_MAX d f s e precision)
               (octants start endp) ?st1 = Some (Inr (sub_results, st'))"
      by (auto split: option.splits sum.splits)
    then have "fst ?st1 \<le> fst st'"
      using surface_to_triangles_counter by (rule run_tasks_counter [rotated])
    with probe show ?thesis by simp
  qed
qed

lemma surface_to_triangles_budget_one:
  assumes "\<not> (px endp - px start < precision \<or> py endp - py start < precision
              \<or> pz endp - pz start < precision)"
  shows "surface_to_triangles rand RAND_MAX (Suc 0) f start endp precision g = None
           \<longleftrightarrow> fst (cube_contains_surface rand RAND_MAX f start endp g)"
proof (cases "fst (cube_contains_surface rand RAND_MAX f start endp g)")
  case True
  have "run_tasks (\<lambda>s e. surface_to_triangles rand RAND_MAX 0 f s e precision)
          (octants start endp) h = None" for h
    by (simp add: octants_def Let_def surface_to_triangles.simps)
  with True surface_to_triangles_subdivided [OF assms True, of 0] show ?thesis
    by simp
next
  case False
  with surface_to_triangles_pruned [OF assms False, of 0] show ?thesis
    by simp
qed

lemma constant_field_pruned:
  shows "surface_to_triangles cyclic_rand 6 (Suc 0) (\<lambda>x y z. 1) (Point3D 0 0 0) (Point3D 1 1 1) 1 0
     = Some (Inr ([], 30000))"
  and "\<not> fst (cube_contains_surface cyclic_rand 6 (\<lambda>x y z. 1) (Point3D 0 0 0) (Point3D 1 1 1) 0)"
proof -
  let ?f = "\<lambda>x y z :: real. 1 :: real"
  let ?s = "Point3D 0 0 0"
  let ?e = "Point3D 1 1 1"
  have nonleaf: "\<not> (px ?e - px ?s < (1::real) \<or> py ?e - py ?s < (1::real) \<or> pz ?e - pz ?s < (1::real))"
    by simp
  have "(\<forall>p. in_box ?s ?e p \<longrightarrow> 0 \<le> field_at ?f p) \<or> (\<forall>p. in_box ?s ?e p \<longrightarrow> field_at ?f p < 0)"
    by (simp add: field_at_def)
  with cyclic_rand_in_range
  show probe: "\<not> fst (cube_contains_surface cyclic_rand 6 ?f ?s ?e 0)"
    by (rule cube_contains_surface_one_sign)
  have "snd (cube_contains_surface cyclic_rand 6 ?f ?s ?e 0) = 30000"
    by (simp add: cube_contains_surface_state cyclic_rand_funpow)
  with surface_to_triangles_pruned [OF nonleaf probe, of 0]
  show "surface_to_triangles cyclic_rand 6 (Suc 0) ?f ?s ?e 1 0 = Some (Inr ([], 30000))"
    by simp
qed

text \<open>
  C3, as the source has it. \<open>surface_to_triangles\<close> hands the box to \<open>marching_cubes\<close>
  and returns its result, without drawing a random number, if and only if some axis
  extent is strictly less than the precision: with a generator that counts its calls, a
  call that returns has drawn nothing exactly in that case. A box whose extents are all
  at least the precision, one of them equal to it included, is not a leaf: it goes to
  the probe, and it is subdivided when the probe reports a sign change (the call then
  needs a depth budget above one) and pruned, with the empty list as result, when it
  does not.
\<close>

theorem surface_to_triangles_leaf_iff_extent_below_precision:
  "((px endp - px start < precision \<or> py endp - py start < precision
       \<or> pz endp - pz start < precision) \<longrightarrow>
      (\<exists>ts. marching_cubes start endp f = Inr ts
           \<and> surface_to_triangles rand RAND_MAX (Suc depth) f start endp precision g
               = Some (Inr (ts, g))))
   \<and> (surface_to_triangles (counting rand) RAND_MAX depth' f start endp precision (0, g)
        = Some (Inr (triangles, (k, g'))) \<longrightarrow>
      (k = 0 \<longleftrightarrow> px endp - px start < precision \<or> py endp - py start < precision
                  \<or> pz endp - pz start < precision))
   \<and> (precision \<le> px endp - px start \<and> precision \<le> py endp - py start
        \<and> precision \<le> pz endp - pz start \<longrightarrow>
      (surface_to_triangles rand RAND_MAX (Suc 0) f start endp precision g = None
         \<longleftrightarrow> fst (cube_contains_surface rand RAND_MAX f start endp g))
      \<and> (\<not> fst (cube_contains_surface rand RAND_MAX f start endp g) \<longrightarrow>
           surface_to_triangles rand RAND_MAX (Suc depth) f start endp precision g
             = Some (Inr ([], snd (cube_contains_surface rand RAND_MAX f start endp g)))))"
proof (intro conjI impI)
  assume leaf: "px endp - px start < precision \<or> py endp - py start < precision
       \<or> pz endp - pz start < precision"
  obtain ts where "marching_cubes start endp f = Inr ts"
    using marching_cubes_total by blast
  with surface_to_triangles_leaf [OF leaf, of rand RAND_MAX depth f g]
  show "\<exists>ts. marching_cubes start endp f = Inr ts
           \<and> surface_to_triangles rand RAND_MAX (Suc depth) f start endp precision g
               = Some (Inr (ts, g))"
    by simp
next
  assume run: "surface_to_triangles (counting rand) RAND_MAX depth' f start endp precision (0, g)
        = Some (Inr (triangles, (k, g')))"
  show "k = 0 \<longleftrightarrow> px endp - px start < precision \<or> py endp - py start < precision
                  \<or> pz endp - pz start < precision"
  proof (cases "px endp - px start < precision \<or> py endp - py start < precision
           \<or> pz endp - pz start < precision")
    case True
    from run obtain d where d: "depth' = Suc d"
      by (cases depth') (simp_all add: surface_to_triangles.simps)
    from run surface_to_triangles_leaf [OF True, of "counting rand" RAND_MAX d f "(0, g)"] d
    have "k = 0"
      by (auto split: sum.splits)
    with True show ?thesis by simp
  next
    case False
    from surface_to_triangles_counter_nonleaf [OF False run] have "30000 \<le> k"
      by simp
    with False show ?thesis by simp
  qed
next
  assume "precision \<le> px endp - px start \<and> precision \<le> py endp - py start
        \<and> precision \<le> pz endp - pz start"
  then have nonleaf: "\<not> (px endp - px start < precision \<or> py endp - py start < precision
              \<or> pz endp - pz start < precision)"
    by simp
  show "surface_to_triangles rand RAND_MAX (Suc 0) f start endp precision g = None
         \<longleftrightarrow> fst (cube_contains_surface rand RAND_MAX f start endp g)"
    using nonleaf by (rule surface_to_triangles_budget_one)
  assume "\<not> fst (cube_contains_surface rand RAND_MAX f start endp g)"
  with nonleaf
  show "surface_to_triangles rand RAND_MAX (Suc depth) f start endp precision g
             = Some (Inr ([], snd (cube_contains_surface rand RAND_MAX f start endp g)))"
    by (rule surface_to_triangles_pruned)
qed

theorem surface_to_triangles_leaf_iff_extent_below_precision_witness:
  "px (Point3D 1 1 1) - px (Point3D 0 0 0) < (2::real)
   \<and> surface_to_triangles cyclic_rand 6 (Suc 0) (\<lambda>x y z. 1) (Point3D 0 0 0) (Point3D 1 1 1) 2 0
       = Some (Inr ([], 0))
   \<and> surface_to_triangles (counting cyclic_rand) 6 (Suc 0) (\<lambda>x y z. 1)
        (Point3D 0 0 0) (Point3D 1 1 1) 2 (0, 0) = Some (Inr ([], (0, 0)))
   \<and> (1::real) \<le> px (Point3D 1 1 1) - px (Point3D 0 0 0)
   \<and> (1::real) \<le> py (Point3D 1 1 1) - py (Point3D 0 0 0)
   \<and> (1::real) \<le> pz (Point3D 1 1 1) - pz (Point3D 0 0 0)
   \<and> surface_to_triangles cyclic_rand 6 (Suc 0) (\<lambda>x y z. x - 1 / 2)
        (Point3D 0 0 0) (Point3D 1 1 1) 1 0 = None
   \<and> fst (cube_contains_surface cyclic_rand 6 (\<lambda>x y z. x - 1 / 2) (Point3D 0 0 0) (Point3D 1 1 1) 0)"
proof -
  let ?one = "\<lambda>x y z :: real. 1 :: real"
  let ?plane = "\<lambda>x y z :: real. x - 1 / 2"
  let ?s = "Point3D 0 0 0"
  let ?e = "Point3D 1 1 1"
  have leaf: "px ?e - px ?s < (2::real)"
    by simp
  have cell: "marching_cubes ?s ?e ?one = Inr []"
    by (rule marching_cubes_nonneg) (simp add: field_at_def)
  have big: "(1::real) \<le> px ?e - px ?s \<and> (1::real) \<le> py ?e - py ?s \<and> (1::real) \<le> pz ?e - pz ?s"
    by simp
  note spec_leaf = surface_to_triangles_leaf_iff_extent_below_precision
    [of ?e ?s 2 ?one cyclic_rand 6 0 0 0 "[]" 0 0]
  note spec_plane = surface_to_triangles_leaf_iff_extent_below_precision
    [of ?e ?s 1 ?plane cyclic_rand 6 0 0 0 "[]" 0 0]
  from spec_leaf leaf cell
  have first: "surface_to_triangles cyclic_rand 6 (Suc 0) ?one ?s ?e 2 0 = Some (Inr ([], 0))"
    by auto
  have counted: "surface_to_triangles (counting cyclic_rand) 6 (Suc 0) ?one ?s ?e 2 (0, 0)
                   = Some (Inr ([], (0, 0)))"
    using surface_to_triangles_leaf [of ?e ?s 2 "counting cyclic_rand" 6 0 ?one "(0, 0)"] cell
    by simp
  from spec_plane big plane_probe_found
  have "surface_to_triangles cyclic_rand 6 (Suc 0) ?plane ?s ?e 1 0 = None"
    by blast
  with first counted leaf big plane_probe_found show ?thesis
    by simp
qed

text \<open>
  C3 as written says that a box whose extents all equal the precision is subdivided. For the constant field 1 on the unit cube with precision 1 the probe
  reports no sign change, and the call returns the empty list on a depth budget of one,
  which leaves no room for a recursive call: the box is pruned, not subdivided.
\<close>

theorem boundary_box_pruned_not_subdivided:
  "px (Point3D 1 1 1) - px (Point3D 0 0 0) = (1::real)
   \<and> py (Point3D 1 1 1) - py (Point3D 0 0 0) = (1::real)
   \<and> pz (Point3D 1 1 1) - pz (Point3D 0 0 0) = (1::real)
   \<and> \<not> fst (cube_contains_surface cyclic_rand 6 (\<lambda>x y z. 1) (Point3D 0 0 0) (Point3D 1 1 1) 0)
   \<and> surface_to_triangles cyclic_rand 6 (Suc 0) (\<lambda>x y z. 1) (Point3D 0 0 0) (Point3D 1 1 1) 1 0
       = Some (Inr ([], 30000))"
proof (intro conjI)
  show "\<not> fst (cube_contains_surface cyclic_rand 6 (\<lambda>x y z. 1) (Point3D 0 0 0) (Point3D 1 1 1) 0)"
    by (rule constant_field_pruned(2))
  show "surface_to_triangles cyclic_rand 6 (Suc 0) (\<lambda>x y z. 1) (Point3D 0 0 0) (Point3D 1 1 1) 1 0
       = Some (Inr ([], 30000))"
    by (rule constant_field_pruned(1))
qed simp_all

end
